theory Spec2Isabelle
  imports Complex_Main
begin

section \<open>Numeric arrays and mesh objects\<close>

text \<open>
  The scripts move numpy arrays into the vertex buffers of mesh objects owned by the host
  application. An array is its shape together with its elements in row-major order, as
  \<^verbatim>\<open>reshape(-1)\<close> lists them. Floating-point numbers are idealised as reals: arithmetic is
  exact, and \<^verbatim>\<open>astype(np.float32)\<close>, a rounding, leaves every value as it is.
\<close>

datatype error =
    RuntimeError
  | ValueError
  | IndexError
  | KeyError
  | TypeError
  | AttributeError
  | FileNotFoundError
  | ZeroDivisionError
  | HostError

record ndarray =
  shape :: "nat list"
  flat :: "real list"

definition wf_array :: "ndarray \<Rightarrow> bool" where
  "wf_array A \<longleftrightarrow> length (flat A) = prod_list (shape A)"

definition ndim :: "ndarray \<Rightarrow> nat" where
  "ndim A = length (shape A)"

definition astype_float32 :: "ndarray \<Rightarrow> ndarray" where
  "astype_float32 A = A"

definition reshape_flat :: "ndarray \<Rightarrow> real list" where
  "reshape_flat A = flat A"

type_synonym vec3 = "real \<times> real \<times> real"

text \<open>
  A scene object of the host: its name, its type (\<^verbatim>\<open>"MESH"\<close>, \<^verbatim>\<open>"CAMERA"\<close>, ...) and, for a
  mesh, the coordinates of its vertices. \<^verbatim>\<open>mesh.update()\<close> and \<^verbatim>\<open>obj.update_tag()\<close> notify
  the host's dependency graph and change no data of this model.
\<close>

record bobject =
  name :: string
  otype :: string
  vertices :: "vec3 list"

fun chop3 :: "real list \<Rightarrow> vec3 list" where
  "chop3 (x # y # z # rest) = (x, y, z) # chop3 rest"
| "chop3 _ = []"

text \<open>
  \<^verbatim>\<open>mesh.vertices.foreach_set("co", seq)\<close> is the host's bulk setter: it takes three numbers
  for each vertex and rejects a sequence of any other length.
\<close>

definition foreach_set_co :: "vec3 list \<Rightarrow> real list \<Rightarrow> error + vec3 list" where
  "foreach_set_co vs seq =
     (if length seq \<noteq> 3 * length vs then Inl HostError else Inr (chop3 seq))"

text \<open>
  \<^verbatim>\<open>update_mesh_vertices\<close> of \<^verbatim>\<open>Multi-physics/run.py\<close> (the same text is in
  \<^verbatim>\<open>render_sequence.py\<close>, \<^verbatim>\<open>unroll/run.py\<close>, \<^verbatim>\<open>Twist_release/run.py\<close> and
  \<^verbatim>\<open>run_slowmo_orbit.py\<close>). The result pairs the outcome with the object as it is when
  the function returns or raises.
\<close>

definition update_mesh_vertices :: "bobject \<Rightarrow> ndarray \<Rightarrow> (error + unit) \<times> bobject" where
  "update_mesh_vertices obj V_np =
     (if ndim V_np \<noteq> 2 \<or> shape V_np ! 1 \<noteq> 3 then (Inl ValueError, obj)
      else if otype obj \<noteq> ''MESH'' then (Inl AttributeError, obj)
      else
        let n_mesh = length (vertices obj);
            n_in = shape V_np ! 0
        in if n_in \<noteq> n_mesh then (Inl ValueError, obj)
           else
             let co_flat = reshape_flat (astype_float32 V_np)
             in case foreach_set_co (vertices obj) co_flat of
                  Inl e \<Rightarrow> (Inl e, obj)
                | Inr vs \<Rightarrow> (Inr (), obj\<lparr>vertices := vs\<rparr>))"


section \<open>Frame files\<close>

text \<open>
  Python's \<^verbatim>\<open>str\<close> of a natural number, and the format \<^verbatim>\<open>{frame_num:06d}\<close>: the sign, then
  the decimal digits filled with zeros on the left up to six characters in all.
\<close>

definition digit_char :: "nat \<Rightarrow> char" where
  "digit_char d = ''0123456789'' ! d"

function str_nat :: "nat \<Rightarrow> string" where
  "str_nat n = (if n < 10 then [digit_char n] else str_nat (n div 10) @ [digit_char (n mod 10)])"
  by pat_completeness auto
termination
  by (relation "measure (\<lambda>n. n)") auto

declare str_nat.simps [simp del]

definition format_06d :: "int \<Rightarrow> string" where
  "format_06d n =
     (let digits = str_nat (nat \<bar>n\<bar>);
          sign = (if n < 0 then ''-'' else '''')
      in sign @ replicate (6 - (length sign + length digits)) (CHR ''0'') @ digits)"

text \<open>
  \<^verbatim>\<open>os.path.join\<close> as \<^verbatim>\<open>posixpath\<close> defines it: a component that starts with the separator
  replaces what came before, and no separator is added after an empty path or after a
  path that ends with one.
\<close>

definition join_step :: "string \<Rightarrow> string \<Rightarrow> string" where
  "join_step path b =
     (if b \<noteq> [] \<and> hd b = CHR ''/'' then b
      else if path = [] \<or> last path = CHR ''/'' then path @ b
      else path @ ''/'' @ b)"

definition join :: "string \<Rightarrow> string list \<Rightarrow> string" where
  "join a p = foldl join_step a p"

text \<open>
  The files of the input folder: a path that exists holds an array. \<^verbatim>\<open>np.load\<close> raises
  on a path that does not exist.
\<close>

type_synonym filesystem = "string \<rightharpoonup> ndarray"

definition path_exists :: "filesystem \<Rightarrow> string \<Rightarrow> bool" where
  "path_exists fs p \<longleftrightarrow> fs p \<noteq> None"

definition np_load :: "filesystem \<Rightarrow> string \<Rightarrow> error + ndarray" where
  "np_load fs p = (case fs p of None \<Rightarrow> Inl FileNotFoundError | Some A \<Rightarrow> Inr A)"

text \<open>
  \<^verbatim>\<open>render_sequence.py\<close>: the table of scene objects and their folders, the path of a
  frame of a component, and the test that a frame is there for every component.
\<close>

definition mesh_components :: "(string \<times> string) list" where
  "mesh_components =
     [(''Box1'', ''box1''), (''Box2'', ''box2''), (''Box3'', ''box3''), (''Box4'', ''box4''),
      (''Cloth1'', ''cloth1''), (''Cloth2'', ''cloth2'')]"

definition get_frame_path :: "string \<Rightarrow> string \<Rightarrow> int \<Rightarrow> string" where
  "get_frame_path inFolder component_folder frame_num =
     join inFolder [component_folder, ''frame_'' @ format_06d frame_num @ ''.npy'']"

fun frame_exists_loop :: "filesystem \<Rightarrow> string \<Rightarrow> (string \<times> string) list \<Rightarrow> int \<Rightarrow> bool" where
  "frame_exists_loop fs inFolder [] frame_num = True"
| "frame_exists_loop fs inFolder ((obj_name, folder) # rest) frame_num =
     (if \<not> path_exists fs (get_frame_path inFolder folder frame_num) then False
      else frame_exists_loop fs inFolder rest frame_num)"

definition frame_exists :: "filesystem \<Rightarrow> string \<Rightarrow> int \<Rightarrow> bool" where
  "frame_exists fs inFolder frame_num =
     frame_exists_loop fs inFolder mesh_components frame_num"

text \<open>
  Reading a decimal numeral back, and the zero-padded numeral of a given width as the
  specification words it: these two say what \<^verbatim>\<open>:06d\<close> is to produce.
\<close>

definition digit_val :: "char \<Rightarrow> nat" where
  "digit_val c = of_char c - 48"

definition decimal_value :: "string \<Rightarrow> nat" where
  "decimal_value s = foldl (\<lambda>acc c. 10 * acc + digit_val c) 0 s"

definition zero_padded :: "nat \<Rightarrow> nat \<Rightarrow> string" where
  "zero_padded width n = replicate (width - length (str_nat n)) (CHR ''0'') @ str_nat n"

section \<open>Scene objects and the mesh mapping\<close>

text \<open>
  The host's table of objects, by name. An object taken from it is a reference: the
  scripts keep it and update the object behind it, so the model keeps the name.
\<close>

type_synonym scene = "string \<rightharpoonup> bobject"

definition get_mesh_obj :: "scene \<Rightarrow> string \<Rightarrow> error + bobject" where
  "get_mesh_obj sc n =
     (case sc n of
        None \<Rightarrow> Inl RuntimeError
      | Some obj \<Rightarrow> if otype obj \<noteq> ''MESH'' then Inl RuntimeError else Inr obj)"

text \<open>
  \<^verbatim>\<open>update_mesh_vertices(ref, V)\<close> on the object a reference stands for. The scripts only
  hold references to objects found in the scene, so the first case does not arise.
\<close>

definition update_scene_mesh :: "scene \<Rightarrow> string \<Rightarrow> ndarray \<Rightarrow> (error + unit) \<times> scene" where
  "update_scene_mesh sc ref V =
     (case sc ref of
        None \<Rightarrow> (Inl KeyError, sc)
      | Some obj \<Rightarrow>
          (case update_mesh_vertices obj V of (r, obj') \<Rightarrow> (r, sc(ref \<mapsto> obj'))))"

text \<open>
  The render targets of \<^verbatim>\<open>render_sequence.py\<close> and \<^verbatim>\<open>run_slowmo_orbit.py\<close>: every name
  is looked up with \<^verbatim>\<open>get_mesh_obj\<close>, outside any \<^verbatim>\<open>try\<close>.
\<close>

fun get_mesh_objs :: "scene \<Rightarrow> string list \<Rightarrow> error + string list" where
  "get_mesh_objs sc [] = Inr []"
| "get_mesh_objs sc (n # ns) =
     (case get_mesh_obj sc n of
        Inl e \<Rightarrow> Inl e
      | Inr obj \<Rightarrow> (case get_mesh_objs sc ns of Inl e \<Rightarrow> Inl e | Inr refs \<Rightarrow> Inr (n # refs)))"

text \<open>
  The manifest \<^verbatim>\<open>mesh_info.json\<close> of \<^verbatim>\<open>Multi-physics/run.py\<close>. Older manifests have no
  \<^verbatim>\<open>particle_start\<close>, as the script says of the cloth.
\<close>

record body_info =
  info_name :: string
  info_particle_start :: "int option"
  info_num_vertices :: int

record rigid_info =
  rinfo_name :: string
  rinfo_body_idx :: int

record mesh_info =
  soft_bodies :: "body_info list"
  rigid_bodies :: "rigid_info list"
  cloth :: "body_info option"

record sb_entry =
  sb_obj :: string
  particle_start :: int
  num_vertices :: int

record rb_entry =
  rb_obj :: string
  body_idx :: int
  local_verts :: ndarray

text \<open>
  The soft-body mapping: the loop appends an entry for every body found as a mesh; the
  \<^verbatim>\<open>RuntimeError\<close> of \<^verbatim>\<open>get_mesh_obj\<close> is caught, a warning is printed and the loop goes
  on. The second list holds the names warned about.
\<close>

fun soft_body_mapping ::
  "scene \<Rightarrow> body_info list \<Rightarrow> sb_entry list \<times> string list \<Rightarrow> error + (sb_entry list \<times> string list)"
where
  "soft_body_mapping sc [] acc = Inr acc"
| "soft_body_mapping sc (sb_info # rest) (soft_body_meshes, warnings) =
     (case get_mesh_obj sc (info_name sb_info) of
        Inl e \<Rightarrow>
          if e = RuntimeError
          then soft_body_mapping sc rest (soft_body_meshes, warnings @ [info_name sb_info])
          else Inl e
      | Inr obj \<Rightarrow>
          (case info_particle_start sb_info of
             None \<Rightarrow> Inl KeyError
           | Some s \<Rightarrow>
               soft_body_mapping sc rest
                 (soft_body_meshes @
                    [\<lparr>sb_obj = info_name sb_info, particle_start = s,
                      num_vertices = info_num_vertices sb_info\<rparr>],
                  warnings)))"

text \<open>The rigid-body mapping loads the local vertices of every body found.\<close>

fun rigid_body_mapping ::
  "filesystem \<Rightarrow> string \<Rightarrow> scene \<Rightarrow> rigid_info list \<Rightarrow> rb_entry list \<times> string list \<Rightarrow>
   error + (rb_entry list \<times> string list)"
where
  "rigid_body_mapping fs inFolder sc [] acc = Inr acc"
| "rigid_body_mapping fs inFolder sc (rb_info # rest) (rigid_body_meshes, warnings) =
     (case get_mesh_obj sc (rinfo_name rb_info) of
        Inl e \<Rightarrow>
          if e = RuntimeError
          then rigid_body_mapping fs inFolder sc rest
                 (rigid_body_meshes, warnings @ [rinfo_name rb_info])
          else Inl e
      | Inr obj \<Rightarrow>
          (case np_load fs
                  (join inFolder [''initial_meshes'', rinfo_name rb_info @ ''_vertices_local.npy''])
           of
             Inl e \<Rightarrow> Inl e
           | Inr L \<Rightarrow>
               rigid_body_mapping fs inFolder sc rest
                 (rigid_body_meshes @
                    [\<lparr>rb_obj = rinfo_name rb_info, body_idx = rinfo_body_idx rb_info,
                      local_verts = L\<rparr>],
                  warnings)))"

text \<open>
  The cloth mapping: without \<^verbatim>\<open>particle_start\<close> in the manifest the cloth starts after the
  last soft body.
\<close>

fun cloth_start_after :: "sb_entry list \<Rightarrow> int \<Rightarrow> int" where
  "cloth_start_after [] start = start"
| "cloth_start_after (sb # rest) start =
     (let end = particle_start sb + num_vertices sb
      in cloth_start_after rest (if end > start then end else start))"

definition cloth_mapping ::
  "scene \<Rightarrow> body_info option \<Rightarrow> sb_entry list \<Rightarrow> sb_entry option \<times> string list"
where
  "cloth_mapping sc cloth_info soft_body_meshes =
     (case cloth_info of
        None \<Rightarrow> (None, [])
      | Some info \<Rightarrow>
          (case get_mesh_obj sc (info_name info) of
             Inl e \<Rightarrow> (None, [info_name info])
           | Inr obj \<Rightarrow>
               (Some \<lparr>sb_obj = info_name info,
                      particle_start =
                        (case info_particle_start info of
                           Some s \<Rightarrow> s
                         | None \<Rightarrow> cloth_start_after soft_body_meshes 0),
                      num_vertices = info_num_vertices info\<rparr>,
                [])))"


text \<open>What \<^verbatim>\<open>get_mesh_obj\<close> asks of a name: an object of the scene, of type mesh.\<close>

definition is_mesh :: "scene \<Rightarrow> string \<Rightarrow> bool" where
  "is_mesh sc n = (case sc n of None \<Rightarrow> False | Some obj \<Rightarrow> otype obj = ''MESH'')"




section \<open>Array operations\<close>

text \<open>
  Slicing and indexing along the first axis, as Python and numpy define them: a negative
  index counts from the end, the bounds of a slice are clipped to the length, and an
  array without axes can be neither sliced nor indexed.
\<close>

definition slice_clip :: "nat \<Rightarrow> int \<Rightarrow> nat" where
  "slice_clip n i = (if i < 0 then nat (max (i + int n) 0) else min (nat i) n)"

definition slice_bounds :: "nat \<Rightarrow> int option \<Rightarrow> int option \<Rightarrow> nat \<times> nat" where
  "slice_bounds n start stop =
     ((case start of None \<Rightarrow> 0 | Some i \<Rightarrow> slice_clip n i),
      (case stop of None \<Rightarrow> n | Some j \<Rightarrow> slice_clip n j))"

definition np_slice :: "ndarray \<Rightarrow> int option \<Rightarrow> int option \<Rightarrow> error + ndarray" where
  "np_slice A start stop =
     (case shape A of
        [] \<Rightarrow> Inl IndexError
      | n # rest \<Rightarrow>
          (case slice_bounds n start stop of
             (lo, hi) \<Rightarrow>
               let m = hi - lo; w = prod_list rest
               in Inr \<lparr>shape = m # rest, flat = take (m * w) (drop (lo * w) (flat A))\<rparr>))"

definition np_index :: "ndarray \<Rightarrow> int \<Rightarrow> error + ndarray" where
  "np_index A i =
     (case shape A of
        [] \<Rightarrow> Inl IndexError
      | n # rest \<Rightarrow>
          let j = (if i < 0 then i + int n else i); w = prod_list rest
          in if 0 \<le> j \<and> j < int n
             then Inr \<lparr>shape = rest, flat = take w (drop (nat j * w) (flat A))\<rparr>
             else Inl IndexError)"

text \<open>Python's \<^verbatim>\<open>xs[i]\<close> on a list.\<close>

definition py_nth :: "'a list \<Rightarrow> int \<Rightarrow> error + 'a" where
  "py_nth xs i =
     (if 0 \<le> i \<and> i < int (length xs) then Inr (xs ! nat i)
      else if i < 0 \<and> 0 \<le> i + int (length xs) then Inr (xs ! nat (i + int (length xs)))
      else Inl IndexError)"

text \<open>An element used as a number: \<^verbatim>\<open>A[i]\<close> of an array of one axis.\<close>

definition np_item :: "ndarray \<Rightarrow> int \<Rightarrow> error + real" where
  "np_item A i =
     (case np_index A i of
        Inl e \<Rightarrow> Inl e
      | Inr x \<Rightarrow> (case (shape x, flat x) of ([], [v]) \<Rightarrow> Inr v | _ \<Rightarrow> Inl TypeError))"

definition np_mul_scalar :: "ndarray \<Rightarrow> real \<Rightarrow> ndarray" where
  "np_mul_scalar A c = A\<lparr>flat := map (\<lambda>x. x * c) (flat A)\<rparr>"

text \<open>
  Addition of two arrays with numpy's broadcasting: the shapes are aligned on the right,
  two extents agree when they are equal or one of them is 1, and an axis of extent 1 is
  repeated.
\<close>

fun broadcast_rev :: "nat list \<Rightarrow> nat list \<Rightarrow> nat list option" where
  "broadcast_rev [] ys = Some ys"
| "broadcast_rev xs [] = Some xs"
| "broadcast_rev (x # xs) (y # ys) =
     (if x = y \<or> y = 1 then map_option ((#) x) (broadcast_rev xs ys)
      else if x = 1 then map_option ((#) y) (broadcast_rev xs ys)
      else None)"

definition broadcast_shapes :: "nat list \<Rightarrow> nat list \<Rightarrow> nat list option" where
  "broadcast_shapes s t = map_option rev (broadcast_rev (rev s) (rev t))"

definition chunk :: "nat \<Rightarrow> nat \<Rightarrow> real list \<Rightarrow> real list" where
  "chunk w i xs = take w (drop (i * w) xs)"

fun broadcast_to :: "nat list \<Rightarrow> nat list \<Rightarrow> real list \<Rightarrow> real list" where
  "broadcast_to (d # ds) (e # es) xs =
     (if e = d
      then concat (map (\<lambda>i. broadcast_to ds es (chunk (prod_list es) i xs)) [0..<d])
      else concat (replicate d (broadcast_to ds es xs)))"
| "broadcast_to _ _ xs = xs"

definition pad_shape :: "nat \<Rightarrow> nat list \<Rightarrow> nat list" where
  "pad_shape k s = replicate (k - length s) 1 @ s"

definition np_add :: "ndarray \<Rightarrow> ndarray \<Rightarrow> error + ndarray" where
  "np_add A B =
     (case broadcast_shapes (shape A) (shape B) of
        None \<Rightarrow> Inl ValueError
      | Some t \<Rightarrow>
          Inr \<lparr>shape = t,
               flat = map2 (+)
                 (broadcast_to t (pad_shape (length t) (shape A)) (flat A))
                 (broadcast_to t (pad_shape (length t) (shape B)) (flat B))\<rparr>)"

text \<open>
  The product \<^verbatim>\<open>A @ M\<close> of an array with a matrix of three rows and three columns: every
  run of three numbers along the last axis is a row vector multiplied by \<open>M\<close>.
\<close>

type_synonym mat3 = "vec3 \<times> vec3 \<times> vec3"

fun transpose3 :: "mat3 \<Rightarrow> mat3" where
  "transpose3 ((a, b, c), (d, e, f), (g, h, i)) = ((a, d, g), (b, e, h), (c, f, i))"

fun vec_mat :: "vec3 \<Rightarrow> mat3 \<Rightarrow> vec3" where
  "vec_mat (x, y, z) ((a, b, c), (d, e, f), (g, h, i)) =
     (x * a + y * d + z * g, x * b + y * e + z * h, x * c + y * f + z * i)"

fun unchop3 :: "vec3 list \<Rightarrow> real list" where
  "unchop3 [] = []"
| "unchop3 ((x, y, z) # rest) = x # y # z # unchop3 rest"

definition matmul_mat3 :: "ndarray \<Rightarrow> mat3 \<Rightarrow> error + ndarray" where
  "matmul_mat3 A M =
     (if shape A = [] \<or> last (shape A) \<noteq> 3 then Inl ValueError
      else Inr \<lparr>shape = shape A, flat = unchop3 (map (\<lambda>v. vec_mat v M) (chop3 (flat A)))\<rparr>)"

text \<open>
  \<^verbatim>\<open>Quaternion((w, x, y, z)).to_matrix()\<close> of the host's \<^verbatim>\<open>mathutils\<close>: the rotation matrix
  of a unit quaternion. The host applies the same formula to any quaternion.
\<close>

fun quat_to_matrix :: "real \<times> real \<times> real \<times> real \<Rightarrow> mat3" where
  "quat_to_matrix (w, x, y, z) =
     ((1 - 2 * (y * y + z * z), 2 * (x * y - w * z), 2 * (x * z + w * y)),
      (2 * (x * y + w * z), 1 - 2 * (x * x + z * z), 2 * (y * z - w * x)),
      (2 * (x * z - w * y), 2 * (y * z + w * x), 1 - 2 * (x * x + y * y)))"

section \<open>Applying a frame\<close>

text \<open>
  \<^verbatim>\<open>Multi-physics/run.py\<close>, the update of one soft body or of the cloth from the particle
  array of the frame, which the loop has already multiplied by the scale.
\<close>

definition update_particles :: "scene \<Rightarrow> ndarray \<Rightarrow> sb_entry \<Rightarrow> (error + unit) \<times> scene" where
  "update_particles sc particle_q sb =
     (let start = particle_start sb;
          end = start + num_vertices sb
      in case np_slice particle_q (Some start) (Some end) of
           Inl e \<Rightarrow> (Inl e, sc)
         | Inr V \<Rightarrow> update_scene_mesh sc (sb_obj sb) V)"

fun update_soft_bodies :: "scene \<Rightarrow> ndarray \<Rightarrow> sb_entry list \<Rightarrow> (error + unit) \<times> scene" where
  "update_soft_bodies sc particle_q [] = (Inr (), sc)"
| "update_soft_bodies sc particle_q (sb # rest) =
     (case update_particles sc particle_q sb of
        (Inl e, sc') \<Rightarrow> (Inl e, sc')
      | (Inr u, sc') \<Rightarrow> update_soft_bodies sc' particle_q rest)"

text \<open>
  The update of one rigid body from the pose table \<^verbatim>\<open>body_q\<close> of the frame: a row holds
  the position and then the quaternion as \<open>x, y, z, w\<close>. A body whose index is not below
  the number of rows is left alone.
\<close>

definition update_rigid_body ::
  "scene \<Rightarrow> ndarray \<Rightarrow> real \<Rightarrow> rb_entry \<Rightarrow> (error + unit) \<times> scene"
where
  "update_rigid_body sc body_q scale rb =
     (case shape body_q of
        [] \<Rightarrow> (Inl TypeError, sc)
      | n # rest \<Rightarrow>
          if body_idx rb < int n then
            (case np_index body_q (body_idx rb) of
               Inl e \<Rightarrow> (Inl e, sc)
             | Inr transform \<Rightarrow>
            (case np_slice transform None (Some 3) of
               Inl e \<Rightarrow> (Inl e, sc)
             | Inr position \<Rightarrow>
            (case np_slice transform (Some 3) (Some 7) of
               Inl e \<Rightarrow> (Inl e, sc)
             | Inr quat_xyzw \<Rightarrow>
            (case np_item quat_xyzw 3 of
               Inl e \<Rightarrow> (Inl e, sc)
             | Inr qw \<Rightarrow>
            (case np_item quat_xyzw 0 of
               Inl e \<Rightarrow> (Inl e, sc)
             | Inr qx \<Rightarrow>
            (case np_item quat_xyzw 1 of
               Inl e \<Rightarrow> (Inl e, sc)
             | Inr qy \<Rightarrow>
            (case np_item quat_xyzw 2 of
               Inl e \<Rightarrow> (Inl e, sc)
             | Inr qz \<Rightarrow>
                 let rot_matrix = quat_to_matrix (qw, qx, qy, qz)
                 in (case matmul_mat3 (local_verts rb) (transpose3 rot_matrix) of
                       Inl e \<Rightarrow> (Inl e, sc)
                     | Inr rotated \<Rightarrow>
                    (case np_add rotated position of
                       Inl e \<Rightarrow> (Inl e, sc)
                     | Inr world_verts \<Rightarrow>
                         update_scene_mesh sc (rb_obj rb)
                           (astype_float32 (np_mul_scalar world_verts scale)))))))))))
          else (Inr (), sc))"

fun update_rigid_bodies ::
  "scene \<Rightarrow> ndarray \<Rightarrow> real \<Rightarrow> rb_entry list \<Rightarrow> (error + unit) \<times> scene"
where
  "update_rigid_bodies sc body_q scale [] = (Inr (), sc)"
| "update_rigid_bodies sc body_q scale (rb # rest) =
     (case update_rigid_body sc body_q scale rb of
        (Inl e, sc') \<Rightarrow> (Inl e, sc')
      | (Inr u, sc') \<Rightarrow> update_rigid_bodies sc' body_q scale rest)"

text \<open>
  One frame of \<^verbatim>\<open>Multi-physics/run.py\<close>, in the two parts of the loop body. First the
  particle file is loaded and multiplied by the scale, and the soft bodies and then the
  cloth take their rows.
\<close>

record mapping =
  soft_body_meshes :: "sb_entry list"
  cloth_mesh :: "sb_entry option"
  rigid_body_meshes :: "rb_entry list"

definition apply_particles ::
  "filesystem \<Rightarrow> mapping \<Rightarrow> real \<Rightarrow> string \<Rightarrow> scene \<Rightarrow> (error + unit) \<times> scene"
where
  "apply_particles fs m scale npy_path sc =
     (case np_load fs npy_path of
        Inl e \<Rightarrow> (Inl e, sc)
      | Inr loaded \<Rightarrow>
          let particle_q = np_mul_scalar loaded scale
          in (case update_soft_bodies sc particle_q (soft_body_meshes m) of
                (Inl e, sc1) \<Rightarrow> (Inl e, sc1)
              | (Inr u, sc1) \<Rightarrow>
                  (case cloth_mesh m of
                     None \<Rightarrow> (Inr (), sc1)
                   | Some c \<Rightarrow> update_particles sc1 particle_q c)))"

text \<open>
  Then the rigid bodies are posed, when the list of pose files reaches the frame and
  the mapping has a rigid body.
\<close>

definition apply_poses ::
  "filesystem \<Rightarrow> mapping \<Rightarrow> real \<Rightarrow> string list \<Rightarrow> int \<Rightarrow> scene \<Rightarrow> (error + unit) \<times> scene"
where
  "apply_poses fs m scale body_q_files fileId sc =
     (if fileId < int (length body_q_files) \<and> rigid_body_meshes m \<noteq> [] then
        (case py_nth body_q_files fileId of
           Inl e \<Rightarrow> (Inl e, sc)
         | Inr body_q_path \<Rightarrow>
             (case np_load fs body_q_path of
                Inl e \<Rightarrow> (Inl e, sc)
              | Inr body_q \<Rightarrow> update_rigid_bodies sc body_q scale (rigid_body_meshes m)))
      else (Inr (), sc))"

definition apply_frame ::
  "filesystem \<Rightarrow> mapping \<Rightarrow> real \<Rightarrow> string \<Rightarrow> string list \<Rightarrow> int \<Rightarrow> scene \<Rightarrow>
   (error + unit) \<times> scene"
where
  "apply_frame fs m scale npy_path body_q_files fileId sc =
     (case apply_particles fs m scale npy_path sc of
        (Inl e, sc2) \<Rightarrow> (Inl e, sc2)
      | (Inr u, sc2) \<Rightarrow> apply_poses fs m scale body_q_files fileId sc2)"

text \<open>
  One frame of \<^verbatim>\<open>unroll/run.py\<close>: the first 66 rows of the file, the collider, are left
  out of what the target mesh receives.
\<close>

definition unroll_apply_frame ::
  "filesystem \<Rightarrow> string \<Rightarrow> string \<Rightarrow> scene \<Rightarrow> (error + unit) \<times> scene"
where
  "unroll_apply_frame fs npy_path target sc =
     (case np_load fs npy_path of
        Inl e \<Rightarrow> (Inl e, sc)
      | Inr loaded \<Rightarrow>
          (case np_slice loaded (Some 66) None of
             Inl e \<Rightarrow> (Inl e, sc)
           | Inr V \<Rightarrow> update_scene_mesh sc target V))"

text \<open>One frame of \<^verbatim>\<open>Twist_release/run.py\<close>: the whole file goes to the target mesh.\<close>

definition twist_apply_frame ::
  "filesystem \<Rightarrow> string \<Rightarrow> string \<Rightarrow> scene \<Rightarrow> (error + unit) \<times> scene"
where
  "twist_apply_frame fs npy_path target sc =
     (case np_load fs npy_path of
        Inl e \<Rightarrow> (Inl e, sc)
      | Inr V \<Rightarrow> update_scene_mesh sc target V)"

text \<open>
  \<^verbatim>\<open>load_frame\<close> of \<^verbatim>\<open>render_sequence.py\<close>: every component's file of the frame is loaded
  and written to the mesh of the component.
\<close>

fun load_frame_loop ::
  "filesystem \<Rightarrow> string \<Rightarrow> (string \<times> string) list \<Rightarrow> int \<Rightarrow> scene \<Rightarrow> (error + unit) \<times> scene"
where
  "load_frame_loop fs inFolder [] frame_num sc = (Inr (), sc)"
| "load_frame_loop fs inFolder ((obj_name, folder) # rest) frame_num sc =
     (case np_load fs (get_frame_path inFolder folder frame_num) of
        Inl e \<Rightarrow> (Inl e, sc)
      | Inr V \<Rightarrow>
          (case update_scene_mesh sc obj_name V of
             (Inl e, sc') \<Rightarrow> (Inl e, sc')
           | (Inr u, sc') \<Rightarrow> load_frame_loop fs inFolder rest frame_num sc'))"

definition load_frame :: "filesystem \<Rightarrow> string \<Rightarrow> int \<Rightarrow> scene \<Rightarrow> (error + unit) \<times> scene" where
  "load_frame fs inFolder frame_num sc =
     load_frame_loop fs inFolder mesh_components frame_num sc"

text \<open>Row \<open>i\<close> of an array of three columns, as a vertex.\<close>

definition row3 :: "ndarray \<Rightarrow> nat \<Rightarrow> vec3" where
  "row3 A i = (flat A ! (3 * i), flat A ! (3 * i + 1), flat A ! (3 * i + 2))"

text \<open>
  Vectors, and the world-space vertex as the specification words it: the local vertex
  as a row multiplied by the transposed rotation matrix, plus the position, then
  multiplied by the scale. Row \<open>i\<close> of the pose table holds the position and then the
  quaternion as \<open>x, y, z, w\<close>.
\<close>

fun vec_add :: "vec3 \<Rightarrow> vec3 \<Rightarrow> vec3" where
  "vec_add (a, b, c) (x, y, z) = (a + x, b + y, c + z)"


fun mat_vec :: "mat3 \<Rightarrow> vec3 \<Rightarrow> vec3" where
  "mat_vec ((a, b, c), (d, e, f), (g, h, i)) (x, y, z) =
     (a * x + b * y + c * z, d * x + e * y + f * z, g * x + h * y + i * z)"





definition vertices_of :: "scene \<Rightarrow> string \<Rightarrow> vec3 list option" where
  "vertices_of sc n = map_option vertices (sc n)"

definition particle_entries :: "mapping \<Rightarrow> sb_entry list" where
  "particle_entries m =
     soft_body_meshes m @ (case cloth_mesh m of None \<Rightarrow> [] | Some c \<Rightarrow> [c])"










section \<open>The orbiting camera\<close>

text \<open>
  \<^verbatim>\<open>orbit_camera\<close> of \<^verbatim>\<open>run_slowmo_orbit.py\<close>. The camera and the three vectors are
  objects of the host that a call could change; the function returns all of them as they
  are after the call. \<^verbatim>\<open>direction.to_track_quat('-Z', 'Y').to_euler()\<close> is the host's
  and stands as a parameter.
\<close>

fun vec_sub :: "vec3 \<Rightarrow> vec3 \<Rightarrow> vec3" where
  "vec_sub (a, b, c) (x, y, z) = (a - x, b - y, c - z)"

fun vx :: "vec3 \<Rightarrow> real" where "vx (x, y, z) = x"
fun vy :: "vec3 \<Rightarrow> real" where "vy (x, y, z) = y"
fun vz :: "vec3 \<Rightarrow> real" where "vz (x, y, z) = z"

record camera =
  location :: vec3
  rotation_euler :: vec3

record orbit_state =
  cam :: camera
  orbit_center :: vec3
  look_at :: vec3
  initial_location :: vec3

definition orbit_camera :: "(vec3 \<Rightarrow> vec3) \<Rightarrow> orbit_state \<Rightarrow> real \<Rightarrow> orbit_state" where
  "orbit_camera track_to_euler s angle_rad =
     (let offset = vec_sub (initial_location s) (orbit_center s);
          cos_a = cos angle_rad;
          sin_a = sin angle_rad;
          new_offset = (vx offset * cos_a - vy offset * sin_a,
                        vx offset * sin_a + vy offset * cos_a,
                        vz offset);
          loc = vec_add (orbit_center s) new_offset;
          direction = vec_sub (look_at s) loc
      in s\<lparr>cam := (cam s)\<lparr>location := loc, rotation_euler := track_to_euler direction\<rparr>\<rparr>)"

section \<open>The polling loops\<close>

text \<open>
  A \<^verbatim>\<open>while\<close> loop runs its body until the body breaks out; a loop that never breaks out
  has no result. The body of a loop is a function of the state of the loop: it either
  hands on the next state or breaks with the result.
\<close>

datatype ('s, 'r) iter = Continue 's | Break 'r

partial_function (option) while_loop :: "('s \<Rightarrow> ('s, 'r) iter) \<Rightarrow> 's \<Rightarrow> 'r option" where
  "while_loop body s = (case body s of Continue s' \<Rightarrow> while_loop body s' | Break r \<Rightarrow> Some r)"

text \<open>The first \<open>n\<close> iterations of a loop, for as long as the body goes on.\<close>

fun iterations :: "nat \<Rightarrow> ('s \<Rightarrow> ('s, 'r) iter) \<Rightarrow> 's \<Rightarrow> ('s, 'r) iter" where
  "iterations 0 body s = Continue s"
| "iterations (Suc n) body s =
     (case body s of Continue s' \<Rightarrow> iterations n body s' | Break r \<Rightarrow> Break r)"

text \<open>
  What a script sees of the outside at one moment: the sorted result of its
  \<^verbatim>\<open>glob\<close> pattern for frame files, that of the pattern for pose files, and the files
  themselves. The external simulator changes it from one moment to the next; a script
  looks at the moment \<open>now\<close> of its state, and every iteration that sleeps, loads or renders
  moves on to the next moment.
\<close>

record world =
  npy_listing :: "string list"
  body_q_listing :: "string list"
  disk :: filesystem

subsection \<open>\<^verbatim>\<open>BWrapper.batchedRendering\<close> of \<^verbatim>\<open>M02_RenderScripts.py\<close>\<close>

text \<open>
  The method from the collection of the model files on. The body of the
  \<^verbatim>\<open>while True\<close> loop ends with the test for missing files: the two statements that
  advance \<^verbatim>\<open>fileId\<close> and take the file stand after the loop, at the indentation of
  the \<^verbatim>\<open>while\<close>. The field \<open>npy_listing\<close> of the world is here the sorted result of
  the method's own pattern.
\<close>

record batched_state =
  b_fileId :: int
  b_inModelFiles :: "string list"
  b_slept :: nat
  b_now :: nat

definition batched_body ::
  "int \<Rightarrow> bool \<Rightarrow> (nat \<Rightarrow> world) \<Rightarrow> batched_state \<Rightarrow> (batched_state, batched_state) iter"
where
  "batched_body numFrames waitForNewFrames env st =
     (if b_fileId st \<ge> numFrames then Break st
      else if b_fileId st \<ge> int (length (b_inModelFiles st)) then
        (if waitForNewFrames
         then Continue (st\<lparr>b_slept := b_slept st + 60,
                           b_inModelFiles := npy_listing (env (Suc (b_now st))),
                           b_now := Suc (b_now st)\<rparr>)
         else Break st)
      else Continue st)"

definition batchedRendering ::
  "int \<Rightarrow> bool \<Rightarrow> int \<Rightarrow> (nat \<Rightarrow> world) \<Rightarrow> (error + batched_state) option"
where
  "batchedRendering numFrames waitForNewFrames renderStride env =
     (case while_loop (batched_body numFrames waitForNewFrames env)
             \<lparr>b_fileId = 0, b_inModelFiles = npy_listing (env 0), b_slept = 0, b_now = 0\<rparr>
      of
        None \<Rightarrow> None
      | Some st \<Rightarrow>
          (let st' = st\<lparr>b_fileId := b_fileId st + renderStride\<rparr>
           in case py_nth (b_inModelFiles st') (b_fileId st') of
                Inl e \<Rightarrow> Some (Inl e)
              | Inr file \<Rightarrow> Some (Inr st')))"

subsection \<open>The loop of \<^verbatim>\<open>Twist_release/run.py\<close>\<close>

record loop_state =
  fileId :: int
  npy_files :: "string list"
  body_q_files :: "string list"
  scene_of :: scene
  rendered :: "string list"
  slept :: nat
  now :: nat

definition twist_body ::
  "int \<Rightarrow> int \<Rightarrow> string \<Rightarrow> (nat \<Rightarrow> world) \<Rightarrow> loop_state \<Rightarrow>
   (loop_state, (error + unit) \<times> loop_state) iter"
where
  "twist_body numFrames stride target env st =
     (if fileId st < numFrames then
        if fileId st \<ge> int (length (npy_files st)) then
          Continue (st\<lparr>slept := slept st + 360,
                      npy_files := npy_listing (env (Suc (now st))),
                      now := Suc (now st)\<rparr>)
        else
          (case py_nth (npy_files st) (fileId st) of
             Inl e \<Rightarrow> Break (Inl e, st)
           | Inr npy_path \<Rightarrow>
               (case twist_apply_frame (disk (env (now st))) npy_path target (scene_of st) of
                  (Inl e, sc') \<Rightarrow> Break (Inl e, st\<lparr>scene_of := sc'\<rparr>)
                | (Inr u, sc') \<Rightarrow>
                    Continue (st\<lparr>scene_of := sc',
                                rendered := rendered st @ [npy_path],
                                fileId := fileId st + stride,
                                now := Suc (now st)\<rparr>)))
      else Break (Inr (), st))"

text \<open>
  The script before its loop: the camera is taken from the scene by name, which raises
  \<^verbatim>\<open>KeyError\<close> when the scene has no such object, the target mesh is looked up with
  \<^verbatim>\<open>get_mesh_obj\<close>, and the folder is scanned. The settings of the script are 1000
  frames and a stride of 1.
\<close>

definition twist_release_run ::
  "string \<Rightarrow> (nat \<Rightarrow> world) \<Rightarrow> scene \<Rightarrow> ((error + unit) \<times> loop_state) option"
where
  "twist_release_run target env sc =
     (let start = \<lparr>fileId = 0, npy_files = [], body_q_files = [], scene_of = sc,
                   rendered = [], slept = 0, now = 0\<rparr>
      in case sc ''Camera'' of
           None \<Rightarrow> Some (Inl KeyError, start)
         | Some camera \<Rightarrow>
             (case get_mesh_obj sc target of
                Inl e \<Rightarrow> Some (Inl e, start)
              | Inr obj \<Rightarrow>
                  while_loop (twist_body 1000 1 target env)
                    (start\<lparr>npy_files := npy_listing (env 0)\<rparr>)))"

subsection \<open>The loop of \<^verbatim>\<open>render_sequence.py\<close>\<close>

record sequence_state =
  frame_num :: int
  rendered_count :: int
  seq_scene :: scene
  seq_rendered :: "int list"
  seq_slept :: nat
  seq_now :: nat

definition sequence_body ::
  "int \<Rightarrow> int \<Rightarrow> string \<Rightarrow> (nat \<Rightarrow> world) \<Rightarrow> sequence_state \<Rightarrow>
   (sequence_state, (error + unit) \<times> sequence_state) iter"
where
  "sequence_body numFrames stride inFolder env st =
     (if rendered_count st < numFrames then
        if \<not> frame_exists (disk (env (seq_now st))) inFolder (frame_num st) then
          Continue (st\<lparr>seq_slept := seq_slept st + 60, seq_now := Suc (seq_now st)\<rparr>)
        else
          (case load_frame (disk (env (seq_now st))) inFolder (frame_num st) (seq_scene st) of
             (Inl e, sc') \<Rightarrow> Break (Inl e, st\<lparr>seq_scene := sc'\<rparr>)
           | (Inr u, sc') \<Rightarrow>
               Continue (st\<lparr>seq_scene := sc',
                           seq_rendered := seq_rendered st @ [frame_num st],
                           frame_num := frame_num st + stride,
                           rendered_count := rendered_count st + 1,
                           seq_now := Suc (seq_now st)\<rparr>))
      else Break (Inr (), st))"

text \<open>
  The script before its loop: the camera is taken from the scene by name, and every
  object of the table of components is looked up with \<^verbatim>\<open>get_mesh_obj\<close>.
\<close>

definition render_sequence ::
  "int \<Rightarrow> int \<Rightarrow> int \<Rightarrow> string \<Rightarrow> (nat \<Rightarrow> world) \<Rightarrow> scene \<Rightarrow>
   ((error + unit) \<times> sequence_state) option"
where
  "render_sequence startFrame numFrames stride inFolder env sc =
     (let start = \<lparr>frame_num = startFrame, rendered_count = 0, seq_scene = sc,
                   seq_rendered = [], seq_slept = 0, seq_now = 0\<rparr>
      in case sc ''Camera'' of
           None \<Rightarrow> Some (Inl KeyError, start)
         | Some camera \<Rightarrow>
             (case get_mesh_objs sc (map fst mesh_components) of
                Inl e \<Rightarrow> Some (Inl e, start)
              | Inr mesh_objs \<Rightarrow>
                  while_loop (sequence_body numFrames stride inFolder env) start))"

subsection \<open>The loop of \<^verbatim>\<open>Multi-physics/run.py\<close>\<close>

definition multi_body ::
  "int \<Rightarrow> int \<Rightarrow> int \<Rightarrow> bool \<Rightarrow> real \<Rightarrow> mapping \<Rightarrow> (nat \<Rightarrow> world) \<Rightarrow> loop_state \<Rightarrow>
   (loop_state, (error + unit) \<times> loop_state) iter"
where
  "multi_body startFrame numFrames stride preview scale m env st =
     (if fileId st < startFrame + numFrames then
        if fileId st \<ge> int (length (npy_files st)) then
          (if preview then Break (Inr (), st)
           else Continue (st\<lparr>slept := slept st + 60,
                            npy_files := npy_listing (env (Suc (now st))),
                            body_q_files := body_q_listing (env (Suc (now st))),
                            now := Suc (now st)\<rparr>))
        else
          (case py_nth (npy_files st) (fileId st) of
             Inl e \<Rightarrow> Break (Inl e, st)
           | Inr npy_path \<Rightarrow>
               (case apply_frame (disk (env (now st))) m scale npy_path (body_q_files st)
                       (fileId st) (scene_of st) of
                  (Inl e, sc') \<Rightarrow> Break (Inl e, st\<lparr>scene_of := sc'\<rparr>)
                | (Inr u, sc') \<Rightarrow>
                    Continue (st\<lparr>scene_of := sc',
                                rendered := (if preview then rendered st
                                             else rendered st @ [npy_path]),
                                fileId := fileId st + stride,
                                now := Suc (now st)\<rparr>)))
      else Break (Inr (), st))"

definition multi_physics_run ::
  "int \<Rightarrow> int \<Rightarrow> int \<Rightarrow> bool \<Rightarrow> real \<Rightarrow> mapping \<Rightarrow> (nat \<Rightarrow> world) \<Rightarrow> scene \<Rightarrow>
   ((error + unit) \<times> loop_state) option"
where
  "multi_physics_run startFrame numFrames stride preview scale m env sc =
     while_loop (multi_body startFrame numFrames stride preview scale m env)
       \<lparr>fileId = startFrame, npy_files = npy_listing (env 0),
        body_q_files = body_q_listing (env 0), scene_of = sc, rendered = [], slept = 0,
        now = 0\<rparr>"

section \<open>The slow-motion renderer\<close>

text \<open>\<^verbatim>\<open>run_slowmo_orbit.py\<close>. Python's \<^verbatim>\<open>range(start, stop, step)\<close> as a list.\<close>

definition py_range :: "int \<Rightarrow> int \<Rightarrow> int \<Rightarrow> error + int list" where
  "py_range start stop step =
     (if step = 0 then Inl ValueError
      else if 0 < step
      then Inr (map (\<lambda>i. start + int i * step) [0..<nat ((stop - start + step - 1) div step)])
      else Inr (map (\<lambda>i. start + int i * step) [0..<nat ((start - stop - step - 1) div (- step))]))"

definition lerp_vertices :: "ndarray \<Rightarrow> ndarray \<Rightarrow> real \<Rightarrow> error + ndarray" where
  "lerp_vertices v0 v1 t = np_add (np_mul_scalar v0 (1 - t)) (np_mul_scalar v1 t)"

text \<open>
  The frames of the source indices are loaded before the loop, into a dictionary keyed by
  the index.
\<close>

fun load_frames ::
  "filesystem \<Rightarrow> string list \<Rightarrow> int list \<Rightarrow> (int \<rightharpoonup> ndarray) \<Rightarrow> error + (int \<rightharpoonup> ndarray)"
where
  "load_frames fs files [] loaded_frames = Inr loaded_frames"
| "load_frames fs files (i # rest) loaded_frames =
     (case py_nth files i of
        Inl e \<Rightarrow> Inl e
      | Inr path \<Rightarrow>
          (case np_load fs path of
             Inl e \<Rightarrow> Inl e
           | Inr A \<Rightarrow> load_frames fs files rest (loaded_frames(i \<mapsto> A))))"

text \<open>
  Every layer mesh takes the next rows of the interpolated array, as many as it has
  vertices; the counts were read from the meshes before the loop.
\<close>

fun update_layers ::
  "scene \<Rightarrow> ndarray \<Rightarrow> int \<Rightarrow> (string \<times> nat) list \<Rightarrow> (error + unit) \<times> scene"
where
  "update_layers sc V_interp start_v [] = (Inr (), sc)"
| "update_layers sc V_interp start_v ((obj, count) # rest) =
     (let end_v = start_v + int count
      in case np_slice V_interp (Some start_v) (Some end_v) of
           Inl e \<Rightarrow> (Inl e, sc)
         | Inr V \<Rightarrow>
             (case update_scene_mesh sc obj V of
                (Inl e, sc') \<Rightarrow> (Inl e, sc')
              | (Inr u, sc') \<Rightarrow> update_layers sc' V_interp end_v rest))"

text \<open>
  What one call of the host's renderer, \<^verbatim>\<open>bpy.ops.render.render\<close>, has before it: the
  index of the output frame, the pair of source frames, the interpolation factor, the
  interpolated array, and the scene and the camera as they are at the call.
\<close>

record frame_out =
  out_idx :: nat
  out_src_a :: int
  out_src_b :: int
  out_t :: real
  out_V :: ndarray
  out_scene :: scene
  out_cam :: camera

record slowmo_state =
  sm_scene :: scene
  sm_orbit :: orbit_state
  output_idx :: nat
  sm_log :: "frame_out list"

record slowmo_job =
  slowdown :: int
  orbit_degrees :: real
  total_output_frames :: int
  layers :: "(string \<times> nat) list"
  track_to_euler :: "vec3 \<Rightarrow> vec3"

definition radians :: "real \<Rightarrow> real" where
  "radians d = d * pi / 180"

definition render_subframe ::
  "slowmo_job \<Rightarrow> int \<Rightarrow> int \<Rightarrow> ndarray \<Rightarrow> ndarray \<Rightarrow> nat \<Rightarrow> slowmo_state \<Rightarrow>
   error + slowmo_state"
where
  "render_subframe job src_idx_a src_idx_b frame_a frame_b sub_idx st =
     (let t = real sub_idx / real_of_int (slowdown job)
      in case lerp_vertices frame_a frame_b t of
           Inl e \<Rightarrow> Inl e
         | Inr V_interp \<Rightarrow>
             (case update_layers (sm_scene st) V_interp 0 (layers job) of
                (Inl e, sc') \<Rightarrow> Inl e
              | (Inr u, sc') \<Rightarrow>
                  if total_output_frames job = 0 then Inl ZeroDivisionError
                  else
                    let progress = real (output_idx st) / real_of_int (total_output_frames job);
                        angle_rad = radians (orbit_degrees job * progress);
                        orbit' = orbit_camera (track_to_euler job) (sm_orbit st) angle_rad
                    in Inr (st\<lparr>sm_scene := sc',
                                 sm_orbit := orbit',
                                 sm_log := sm_log st @
                                   [\<lparr>out_idx = output_idx st, out_src_a = src_idx_a,
                                     out_src_b = src_idx_b, out_t = t, out_V = V_interp,
                                     out_scene = sc', out_cam = cam orbit'\<rparr>],
                                 output_idx := output_idx st + 1\<rparr>)))"

fun render_subframes ::
  "slowmo_job \<Rightarrow> int \<Rightarrow> int \<Rightarrow> ndarray \<Rightarrow> ndarray \<Rightarrow> nat list \<Rightarrow> slowmo_state \<Rightarrow>
   error + slowmo_state"
where
  "render_subframes job a b frame_a frame_b [] st = Inr st"
| "render_subframes job a b frame_a frame_b (sub_idx # rest) st =
     (case render_subframe job a b frame_a frame_b sub_idx st of
        Inl e \<Rightarrow> Inl e
      | Inr st' \<Rightarrow> render_subframes job a b frame_a frame_b rest st')"

definition lookup_frame :: "(int \<rightharpoonup> ndarray) \<Rightarrow> int \<Rightarrow> error + ndarray" where
  "lookup_frame loaded_frames i =
     (case loaded_frames i of None \<Rightarrow> Inl KeyError | Some A \<Rightarrow> Inr A)"

fun render_pairs ::
  "slowmo_job \<Rightarrow> int list \<Rightarrow> (int \<rightharpoonup> ndarray) \<Rightarrow> nat list \<Rightarrow> slowmo_state \<Rightarrow>
   error + slowmo_state"
where
  "render_pairs job source_indices loaded_frames [] st = Inr st"
| "render_pairs job source_indices loaded_frames (pair_idx # rest) st =
     (case py_nth source_indices (int pair_idx) of
        Inl e \<Rightarrow> Inl e
      | Inr src_idx_a \<Rightarrow>
     (case py_nth source_indices (int pair_idx + 1) of
        Inl e \<Rightarrow> Inl e
      | Inr src_idx_b \<Rightarrow>
     (case lookup_frame loaded_frames src_idx_a of
        Inl e \<Rightarrow> Inl e
      | Inr frame_a \<Rightarrow>
     (case lookup_frame loaded_frames src_idx_b of
        Inl e \<Rightarrow> Inl e
      | Inr frame_b \<Rightarrow>
     (case render_subframes job src_idx_a src_idx_b frame_a frame_b
             [0..<nat (slowdown job)] st of
        Inl e \<Rightarrow> Inl e
      | Inr st' \<Rightarrow> render_pairs job source_indices loaded_frames rest st')))))"

text \<open>
  The script from the collection of the files on: the end frame is clipped to the last
  file, the source indices follow the stride, the frames are loaded, and every pair of
  consecutive source frames is rendered \<^verbatim>\<open>slowdown\<close> times.
\<close>

definition slowmo_run ::
  "filesystem \<Rightarrow> string list \<Rightarrow> int \<Rightarrow> int \<Rightarrow> int \<Rightarrow> int \<Rightarrow> real \<Rightarrow> (vec3 \<Rightarrow> vec3) \<Rightarrow>
   (string \<times> nat) list \<Rightarrow> slowmo_state \<Rightarrow> error + slowmo_state"
where
  "slowmo_run fs files start_frame end_frame0 src_stride slowdown_factor degrees track mesh_layers st =
     (let end_frame = (if end_frame0 \<ge> int (length files) then int (length files) - 1
                       else end_frame0)
      in case py_range start_frame (end_frame + 1) src_stride of
           Inl e \<Rightarrow> Inl e
         | Inr source_indices \<Rightarrow>
             let num_source_pairs = int (length source_indices) - 1;
                 job = \<lparr>slowdown = slowdown_factor, orbit_degrees = degrees,
                        total_output_frames = num_source_pairs * slowdown_factor,
                        layers = mesh_layers, track_to_euler = track\<rparr>
             in (case load_frames fs files source_indices Map.empty of
                   Inl e \<Rightarrow> Inl e
                 | Inr loaded_frames \<Rightarrow>
                     render_pairs job source_indices loaded_frames
                       [0..<nat num_source_pairs] st))"


definition slowmo_main ::
  "filesystem \<Rightarrow> string list \<Rightarrow> int \<Rightarrow> int \<Rightarrow> int \<Rightarrow> int \<Rightarrow> real \<Rightarrow> (vec3 \<Rightarrow> vec3) \<Rightarrow>
   string list \<Rightarrow> scene \<Rightarrow> orbit_state \<Rightarrow> error + slowmo_state"
where
  "slowmo_main fs files start_frame end_frame src_stride slowdown_factor degrees track mesh_names
     sc orbit =
     (case get_mesh_objs sc mesh_names of
        Inl e \<Rightarrow> Inl e
      | Inr mesh_objs \<Rightarrow>
          let mesh_vertex_counts =
                map (\<lambda>obj. case sc obj of None \<Rightarrow> 0 | Some b \<Rightarrow> length (vertices b)) mesh_objs
          in slowmo_run fs files start_frame end_frame src_stride slowdown_factor degrees track
               (zip mesh_objs mesh_vertex_counts)
               \<lparr>sm_scene = sc, sm_orbit = orbit, output_idx = 0, sm_log = []\<rparr>)"




section \<open>Vertex updates\<close>

lemma length_chop3: "length (chop3 xs) = length xs div 3"
  by (induction xs rule: chop3.induct) simp_all

lemma shape_pair_iff:
  "shape V = [n, 3] \<longleftrightarrow> ndim V = 2 \<and> shape V ! 0 = n \<and> shape V ! 1 = 3"
proof
  assume "shape V = [n, 3]"
  then show "ndim V = 2 \<and> shape V ! 0 = n \<and> shape V ! 1 = 3"
    by (simp add: ndim_def)
next
  assume h: "ndim V = 2 \<and> shape V ! 0 = n \<and> shape V ! 1 = 3"
  then obtain a b where "shape V = [a, b]"
    by (auto simp: ndim_def length_Suc_conv numeral_2_eq_2)
  with h show "shape V = [n, 3]" by simp
qed

lemma update_mesh_vertices_accept:
  assumes "wf_array V" and "otype obj = ''MESH''" and "shape V = [length (vertices obj), 3]"
  shows "update_mesh_vertices obj V = (Inr (), obj\<lparr>vertices := chop3 (flat V)\<rparr>)"
proof -
  have "length (flat V) = 3 * length (vertices obj)"
    using assms(1,3) by (simp add: wf_array_def)
  then show ?thesis
    using assms(2,3)
    by (simp add: update_mesh_vertices_def ndim_def foreach_set_co_def reshape_flat_def
        astype_float32_def)
qed

lemma update_mesh_vertices_reject:
  assumes "otype obj = ''MESH''" and "shape V \<noteq> [length (vertices obj), 3]"
  shows "update_mesh_vertices obj V = (Inl ValueError, obj)"
  using assms shape_pair_iff [of V "length (vertices obj)"]
  by (auto simp: update_mesh_vertices_def Let_def)







section \<open>Frame paths\<close>

lemma digit_val_digit_char: "d < 10 \<Longrightarrow> digit_val (digit_char d) = d"
proof -
  assume "d < 10"
  then have "d = 0 \<or> d = 1 \<or> d = 2 \<or> d = 3 \<or> d = 4 \<or> d = 5 \<or> d = 6 \<or> d = 7 \<or> d = 8 \<or> d = 9"
    by arith
  then show ?thesis
    by (auto simp: digit_val_def digit_char_def)
qed

lemma decimal_value_snoc: "decimal_value (s @ [c]) = 10 * decimal_value s + digit_val c"
  by (simp add: decimal_value_def)

lemma decimal_value_str_nat: "decimal_value (str_nat n) = n"
proof (induction n rule: str_nat.induct)
  case (1 n)
  show ?case
  proof (cases "n < 10")
    case True
    then show ?thesis
      by (simp add: str_nat.simps [of n] decimal_value_def digit_val_digit_char)
  next
    case False
    with 1 have "decimal_value (str_nat (n div 10)) = n div 10" by simp
    with False show ?thesis
      by (simp add: str_nat.simps [of n] decimal_value_snoc digit_val_digit_char)
  qed
qed

lemma decimal_value_zeros: "decimal_value (replicate k (CHR ''0'') @ s) = decimal_value s"
proof -
  have "foldl (\<lambda>acc c. 10 * acc + digit_val c) 0 (replicate k (CHR ''0'')) = 0"
    by (induction k) (simp_all add: digit_val_def)
  then show ?thesis by (simp add: decimal_value_def)
qed

lemma length_str_nat_pos: "0 < length (str_nat n)"
  by (cases "n < 10") (simp_all add: str_nat.simps [of n])

lemma length_str_nat_le: "0 < k \<Longrightarrow> n < 10 ^ k \<Longrightarrow> length (str_nat n) \<le> k"
proof (induction n arbitrary: k rule: str_nat.induct)
  case (1 n)
  show ?case
  proof (cases "n < 10")
    case True
    with "1.prems" show ?thesis by (simp add: str_nat.simps [of n])
  next
    case False
    with "1.prems" obtain j where k: "k = Suc j" by (cases k) auto
    have "0 < j"
    proof (rule ccontr)
      assume "\<not> 0 < j"
      with k "1.prems" False show False by simp
    qed
    moreover have "n div 10 < 10 ^ j"
      using "1.prems" k by (simp add: less_mult_imp_div_less mult.commute)
    ultimately have "length (str_nat (n div 10)) \<le> j"
      using "1.IH" False by simp
    with False k show ?thesis by (simp add: str_nat.simps [of n])
  qed
qed

lemma format_06d_nonneg: "0 \<le> n \<Longrightarrow> format_06d n = zero_padded 6 (nat n)"
  by (simp add: format_06d_def zero_padded_def Let_def)

lemma length_zero_padded: "length (zero_padded w n) = max w (length (str_nat n))"
  by (simp add: zero_padded_def)

lemma frame_exists_loop_iff:
  "frame_exists_loop fs inFolder comps n \<longleftrightarrow>
     (\<forall>folder \<in> snd ` set comps. path_exists fs (get_frame_path inFolder folder n))"
  by (induction comps) (auto split: if_splits)

lemma join_two_plain:
  assumes "inFolder \<noteq> []" and "last inFolder \<noteq> CHR ''/''"
    and "c \<noteq> []" and "hd c \<noteq> CHR ''/''" and "last c \<noteq> CHR ''/''"
    and "f \<noteq> []" and "hd f \<noteq> CHR ''/''"
  shows "join inFolder [c, f] = inFolder @ ''/'' @ c @ ''/'' @ f"
  using assms by (simp add: join_def join_step_def)

text \<open>
  Claim C8. For a frame number \<open>n \<ge> 0\<close> the path of a component's frame is the input
  folder joined with the component folder and the file name \<^verbatim>\<open>frame_\<close>, the decimal numeral
  of \<open>n\<close> filled with zeros on the left to six digits, \<^verbatim>\<open>.npy\<close>; the numeral reads back as
  \<open>n\<close> and has exactly six digits below a million. For an input folder that is not empty
  and does not end with the separator, the path of each of the six components is the
  plain text \<^verbatim>\<open>inFolder/c/frame_NNNNNN.npy\<close>. \<^verbatim>\<open>frame_exists\<close> is true exactly when
  that file exists for every one of the six components.
\<close>

theorem get_frame_path_frame_exists:
  assumes "0 \<le> n"
  shows "get_frame_path inFolder c n =
           join inFolder [c, ''frame_'' @ zero_padded 6 (nat n) @ ''.npy''] \<and>
         decimal_value (zero_padded 6 (nat n)) = nat n \<and>
         6 \<le> length (zero_padded 6 (nat n)) \<and>
         (n < 1000000 \<longrightarrow> length (zero_padded 6 (nat n)) = 6) \<and>
         (inFolder \<noteq> [] \<and> last inFolder \<noteq> CHR ''/'' \<and> c \<in> snd ` set mesh_components \<longrightarrow>
            get_frame_path inFolder c n =
              inFolder @ ''/'' @ c @ ''/frame_'' @ zero_padded 6 (nat n) @ ''.npy'') \<and>
         length mesh_components = 6 \<and>
         (frame_exists fs inFolder n \<longleftrightarrow>
            (\<forall>folder \<in> snd ` set mesh_components.
               path_exists fs (get_frame_path inFolder folder n)))"
proof -
  have path: "get_frame_path inFolder c n =
      join inFolder [c, ''frame_'' @ zero_padded 6 (nat n) @ ''.npy'']"
    using assms by (simp add: get_frame_path_def format_06d_nonneg)
  have val: "decimal_value (zero_padded 6 (nat n)) = nat n"
    by (simp add: zero_padded_def decimal_value_zeros decimal_value_str_nat)
  have len: "6 \<le> length (zero_padded 6 (nat n))"
    by (simp add: length_zero_padded)
  have six: "n < 1000000 \<longrightarrow> length (zero_padded 6 (nat n)) = 6"
  proof
    assume "n < 1000000"
    with assms have "nat n < 10 ^ 6" by simp
    then have "length (str_nat (nat n)) \<le> 6"
      by (intro length_str_nat_le) simp_all
    then show "length (zero_padded 6 (nat n)) = 6"
      by (simp add: length_zero_padded)
  qed
  have plain: "inFolder \<noteq> [] \<and> last inFolder \<noteq> CHR ''/'' \<and> c \<in> snd ` set mesh_components \<longrightarrow>
      get_frame_path inFolder c n =
        inFolder @ ''/'' @ c @ ''/frame_'' @ zero_padded 6 (nat n) @ ''.npy''"
  proof
    assume h: "inFolder \<noteq> [] \<and> last inFolder \<noteq> CHR ''/'' \<and> c \<in> snd ` set mesh_components"
    then have "c \<noteq> [] \<and> hd c \<noteq> CHR ''/'' \<and> last c \<noteq> CHR ''/''"
      by (auto simp: mesh_components_def)
    with h have "join inFolder [c, ''frame_'' @ zero_padded 6 (nat n) @ ''.npy''] =
        inFolder @ ''/'' @ c @ ''/'' @ (''frame_'' @ zero_padded 6 (nat n) @ ''.npy'')"
      by (intro join_two_plain) simp_all
    with path show "get_frame_path inFolder c n =
        inFolder @ ''/'' @ c @ ''/frame_'' @ zero_padded 6 (nat n) @ ''.npy''"
      by simp
  qed
  have count: "length mesh_components = 6"
    by (simp add: mesh_components_def)
  have ex: "frame_exists fs inFolder n \<longleftrightarrow>
      (\<forall>folder \<in> snd ` set mesh_components. path_exists fs (get_frame_path inFolder folder n))"
    by (simp add: frame_exists_def frame_exists_loop_iff)
  from path val len six plain count ex show ?thesis by blast
qed

theorem get_frame_path_frame_exists_witness:
  "(0::int) \<le> 17 \<and>
   get_frame_path ''/data/run'' ''box1'' 17 = ''/data/run/box1/frame_000017.npy'' \<and>
   \<not> frame_exists Map.empty ''/data/run'' 17"
proof -
  have z: "zero_padded 6 (nat 17) = ''000017''"
    by code_simp
  have m: "''box1'' \<in> snd ` set mesh_components"
    by (simp add: mesh_components_def)
  from get_frame_path_frame_exists [of 17 "''/data/run''" "''box1''" Map.empty] m z
  show ?thesis
    by (auto simp: path_exists_def mesh_components_def)
qed

section \<open>Broadcasting\<close>








section \<open>Missing scene objects\<close>


lemma get_mesh_obj_cases:
  "(\<not> is_mesh sc n \<and> get_mesh_obj sc n = Inl RuntimeError) \<or>
   (is_mesh sc n \<and> (\<exists>obj. sc n = Some obj \<and> get_mesh_obj sc n = Inr obj))"
  by (simp add: get_mesh_obj_def is_mesh_def split: option.splits)


lemma get_mesh_objs_all_found:
  "(\<forall>n \<in> set ns. is_mesh sc n) \<Longrightarrow> get_mesh_objs sc ns = Inr ns"
proof (induction ns)
  case Nil
  show ?case by simp
next
  case (Cons n ns)
  then have "is_mesh sc n" by simp
  with get_mesh_obj_cases [of sc n] obtain obj where "get_mesh_obj sc n = Inr obj"
    by auto
  with Cons show ?case by simp
qed








section \<open>Soft bodies and cloth\<close>

lemma chop3_nth:
  "3 * j + 2 < length xs \<Longrightarrow> chop3 xs ! j = (xs ! (3 * j), xs ! (3 * j + 1), xs ! (3 * j + 2))"
proof (induction xs arbitrary: j rule: chop3.induct)
  case (1 x y z rest)
  show ?case
  proof (cases j)
    case 0
    then show ?thesis by simp
  next
    case (Suc i)
    with "1.prems" have "3 * i + 2 < length rest" by simp
    then have "chop3 rest ! i = (rest ! (3 * i), rest ! (3 * i + 1), rest ! (3 * i + 2))"
      by (rule "1.IH")
    with Suc show ?thesis by (simp add: numeral_3_eq_3)
  qed
qed simp_all

lemma chop3_rows:
  assumes "3 * (lo + n) \<le> length xs"
  shows "chop3 (take (n * 3) (drop (lo * 3) xs)) =
           map (\<lambda>j. (xs ! (3 * (lo + j)), xs ! (3 * (lo + j) + 1), xs ! (3 * (lo + j) + 2))) [0..<n]"
proof (rule nth_equalityI)
  from assms have "n * 3 \<le> length xs - lo * 3" by simp
  then have len: "length (take (n * 3) (drop (lo * 3) xs)) = n * 3" by simp
  then show "length (chop3 (take (n * 3) (drop (lo * 3) xs))) =
      length (map (\<lambda>j. (xs ! (3 * (lo + j)), xs ! (3 * (lo + j) + 1), xs ! (3 * (lo + j) + 2))) [0..<n])"
    by (simp add: length_chop3)
  fix j
  assume "j < length (chop3 (take (n * 3) (drop (lo * 3) xs)))"
  with len have j: "j < n" by (simp add: length_chop3)
  with len have "3 * j + 2 < length (take (n * 3) (drop (lo * 3) xs))" by simp
  then have "chop3 (take (n * 3) (drop (lo * 3) xs)) ! j =
      (take (n * 3) (drop (lo * 3) xs) ! (3 * j),
       take (n * 3) (drop (lo * 3) xs) ! (3 * j + 1),
       take (n * 3) (drop (lo * 3) xs) ! (3 * j + 2))"
    by (rule chop3_nth)
  also have "\<dots> = (xs ! (3 * (lo + j)), xs ! (3 * (lo + j) + 1), xs ! (3 * (lo + j) + 2))"
    using j assms by (simp add: algebra_simps)
  finally show "chop3 (take (n * 3) (drop (lo * 3) xs)) ! j =
      map (\<lambda>j. (xs ! (3 * (lo + j)), xs ! (3 * (lo + j) + 1), xs ! (3 * (lo + j) + 2))) [0..<n] ! j"
    using j by simp
qed

lemma update_scene_mesh_accept:
  assumes "sc ref = Some obj" and "otype obj = ''MESH''"
    and "wf_array V" and "shape V = [length (vertices obj), 3]"
  shows "update_scene_mesh sc ref V = (Inr (), sc(ref \<mapsto> obj\<lparr>vertices := chop3 (flat V)\<rparr>))"
  using assms by (simp add: update_scene_mesh_def update_mesh_vertices_accept)

lemma update_scene_mesh_reject:
  assumes "sc ref = Some obj" and "otype obj = ''MESH''"
    and "shape V \<noteq> [length (vertices obj), 3]"
  shows "update_scene_mesh sc ref V = (Inl ValueError, sc)"
proof -
  have "sc(ref \<mapsto> obj) = sc"
    using assms(1) by (simp add: map_upd_triv)
  then show ?thesis
    using assms by (simp add: update_scene_mesh_def update_mesh_vertices_reject)
qed























text \<open>
  The mapping that the script builds holds only names that \<^verbatim>\<open>get_mesh_obj\<close> has found:
  every entry names a mesh of the scene.
\<close>

lemma soft_body_mapping_meshes:
  assumes "soft_body_mapping sc infos (ms, ws) = Inr (ms', ws')"
    and "\<forall>sb \<in> set ms. is_mesh sc (sb_obj sb)"
  shows "\<forall>sb \<in> set ms'. is_mesh sc (sb_obj sb)"
  using assms
proof (induction infos arbitrary: ms ws)
  case Nil
  then show ?case by simp
next
  case (Cons i infos)
  from get_mesh_obj_cases [of sc "info_name i"] show ?case
  proof
    assume "\<not> is_mesh sc (info_name i) \<and> get_mesh_obj sc (info_name i) = Inl RuntimeError"
    with Cons.prems Cons.IH [of ms "ws @ [info_name i]"] show ?thesis
      by simp
  next
    assume h: "is_mesh sc (info_name i) \<and>
      (\<exists>obj. sc (info_name i) = Some obj \<and> get_mesh_obj sc (info_name i) = Inr obj)"
    show ?thesis
    proof (cases "info_particle_start i")
      case None
      with h Cons.prems show ?thesis by auto
    next
      case (Some s)
      with h Cons.prems
        Cons.IH [of "ms @ [\<lparr>sb_obj = info_name i, particle_start = s,
                           num_vertices = info_num_vertices i\<rparr>]" ws]
      show ?thesis by auto
    qed
  qed
qed

lemma cloth_mapping_mesh:
  "cloth_mapping sc cloth_info sbs = (Some c, ws) \<Longrightarrow> is_mesh sc (sb_obj c)"
  using get_mesh_obj_cases [of sc "info_name (the cloth_info)"]
  by (auto simp: cloth_mapping_def split: option.splits sum.splits)

lemma rigid_body_mapping_meshes:
  assumes "rigid_body_mapping fs inFolder sc infos (ms, ws) = Inr (ms', ws')"
    and "\<forall>rb \<in> set ms. is_mesh sc (rb_obj rb)"
  shows "\<forall>rb \<in> set ms'. is_mesh sc (rb_obj rb)"
  using assms
proof (induction infos arbitrary: ms ws)
  case Nil
  then show ?case by simp
next
  case (Cons i infos)
  from get_mesh_obj_cases [of sc "rinfo_name i"] show ?case
  proof
    assume "\<not> is_mesh sc (rinfo_name i) \<and> get_mesh_obj sc (rinfo_name i) = Inl RuntimeError"
    with Cons.prems Cons.IH [of ms "ws @ [rinfo_name i]"] show ?thesis
      by simp
  next
    assume h: "is_mesh sc (rinfo_name i) \<and>
      (\<exists>obj. sc (rinfo_name i) = Some obj \<and> get_mesh_obj sc (rinfo_name i) = Inr obj)"
    show ?thesis
    proof (cases "np_load fs
        (join inFolder [''initial_meshes'', rinfo_name i @ ''_vertices_local.npy''])")
      case (Inl e)
      with h Cons.prems show ?thesis by auto
    next
      case (Inr L)
      with h Cons.prems
        Cons.IH [of "ms @ [\<lparr>rb_obj = rinfo_name i, body_idx = rinfo_body_idx i,
                           local_verts = L\<rparr>]" ws]
      show ?thesis by auto
    qed
  qed
qed

lemma mapped_targets_are_meshes:
  assumes "soft_body_mapping sc infos ([], []) = Inr (sbs, ws)"
    and "cloth_mapping sc cloth_info sbs = (c, ws')"
    and "rigid_body_mapping fs inFolder sc rinfos ([], []) = Inr (rbs, ws'')"
  shows "(\<forall>sb \<in> set (particle_entries
                \<lparr>soft_body_meshes = sbs, cloth_mesh = c, rigid_body_meshes = rbs\<rparr>).
            is_mesh sc (sb_obj sb)) \<and>
         (\<forall>rb \<in> set rbs. is_mesh sc (rb_obj rb))"
proof -
  have "\<forall>sb \<in> set sbs. is_mesh sc (sb_obj sb)"
    using soft_body_mapping_meshes [OF assms(1)] by simp
  moreover have "is_mesh sc (sb_obj x)" if "c = Some x" for x
    using cloth_mapping_mesh [of sc cloth_info sbs x ws'] assms(2) that by simp
  moreover have "\<forall>rb \<in> set rbs. is_mesh sc (rb_obj rb)"
    using rigid_body_mapping_meshes [OF assms(3)] by simp
  ultimately show ?thesis
    by (auto simp: particle_entries_def split: option.splits)
qed




section \<open>The collider rows of the unroll scene\<close>

lemma np_slice_from_66:
  assumes "wf_array A" and "shape A = [R, 3]"
  shows "np_slice A (Some 66) None =
           Inr \<lparr>shape = [R - 66, 3], flat = take ((R - 66) * 3) (drop (min 66 R * 3) (flat A))\<rparr>"
proof -
  have "R - min 66 R = R - 66" by simp
  then show ?thesis
    using assms(2) by (simp add: np_slice_def slice_bounds_def slice_clip_def Let_def)
qed

lemma chop3_after_66:
  assumes "length xs = R * 3"
  shows "chop3 (take ((R - 66) * 3) (drop (min 66 R * 3) xs)) =
           map (\<lambda>j. (xs ! (3 * (66 + j)), xs ! (3 * (66 + j) + 1), xs ! (3 * (66 + j) + 2)))
             [0..<R - 66]"
proof (cases "66 \<le> R")
  case True
  then have "min 66 R = 66" by simp
  moreover have "3 * (66 + (R - 66)) \<le> length xs"
    using True assms by simp
  ultimately show ?thesis
    using chop3_rows [of 66 "R - 66" xs] by simp
next
  case False
  then show ?thesis by simp
qed

lemma unroll_apply_frame_cases:
  assumes "fs npy_path = Some loaded" and "wf_array loaded" and "shape loaded = [R, 3]"
    and "sc target = Some obj" and "otype obj = ''MESH''"
  shows "unroll_apply_frame fs npy_path target sc =
           (if length (vertices obj) = R - 66
            then (Inr (), sc(target \<mapsto>
                    obj\<lparr>vertices := map (\<lambda>j. row3 loaded (66 + j)) [0..<R - 66]\<rparr>))
            else (Inl ValueError, sc))"
proof -
  let ?V = "\<lparr>shape = [R - 66, 3], flat = take ((R - 66) * 3) (drop (min 66 R * 3) (flat loaded))\<rparr>"
  have len: "length (flat loaded) = R * 3"
    using assms(2,3) by (simp add: wf_array_def)
  have step: "unroll_apply_frame fs npy_path target sc = update_scene_mesh sc target ?V"
    using assms(1) np_slice_from_66 [OF assms(2,3)]
    by (simp add: unroll_apply_frame_def np_load_def)
  show ?thesis
  proof (cases "length (vertices obj) = R - 66")
    case True
    have "(R - 66) * 3 \<le> length (flat loaded) - min 66 R * 3"
      using len by (cases "66 \<le> R") (simp_all add: diff_mult_distrib)
    then have wfV: "wf_array ?V"
      by (simp add: wf_array_def)
    have "update_scene_mesh sc target ?V =
        (Inr (), sc(target \<mapsto> obj\<lparr>vertices := chop3 (flat ?V)\<rparr>))"
      using assms(4,5) wfV True
      by (intro update_scene_mesh_accept [where sc = sc and ref = target and obj = obj])
        simp_all
    moreover have "chop3 (flat ?V) = map (\<lambda>j. row3 loaded (66 + j)) [0..<R - 66]"
      using chop3_after_66 [OF len] by (simp add: row3_def)
    ultimately show ?thesis
      using step True by simp
  next
    case False
    then have "update_scene_mesh sc target ?V = (Inl ValueError, sc)"
      using assms(4,5)
      by (intro update_scene_mesh_reject [where sc = sc and ref = target and obj = obj])
        simp_all
    with step False show ?thesis by simp
  qed
qed

text \<open>
  Claim C9, as the code has it. The unroll renderer leaves out the first 66 rows of every
  frame file and offers the rows from 66 onward to the target mesh. A file of \<open>R\<close> rows
  with \<open>R \<ge> 66\<close> is accepted exactly when the mesh has \<open>R - 66\<close> vertices, and the mesh
  then holds rows \<open>66, \<dots>, R - 1\<close> in order; a file with fewer than 66 rows leaves no
  row, which a mesh without vertices accepts. Every other mesh raises \<^verbatim>\<open>ValueError\<close>, the
  scene as it was.
\<close>

theorem unroll_drops_collider_rows:
  assumes "fs npy_path = Some loaded" and "wf_array loaded" and "shape loaded = [R, 3]"
    and "sc target = Some obj" and "otype obj = ''MESH''"
  shows "(66 \<le> R \<longrightarrow>
            (fst (unroll_apply_frame fs npy_path target sc) = Inr () \<longleftrightarrow>
               length (vertices obj) + 66 = R)) \<and>
         (R < 66 \<longrightarrow>
            (fst (unroll_apply_frame fs npy_path target sc) = Inr () \<longleftrightarrow>
               vertices obj = [])) \<and>
         (fst (unroll_apply_frame fs npy_path target sc) = Inr () \<longrightarrow>
            snd (unroll_apply_frame fs npy_path target sc) =
              sc(target \<mapsto> obj\<lparr>vertices := map (\<lambda>j. row3 loaded (66 + j)) [0..<R - 66]\<rparr>)) \<and>
         (fst (unroll_apply_frame fs npy_path target sc) \<noteq> Inr () \<longrightarrow>
            unroll_apply_frame fs npy_path target sc = (Inl ValueError, sc))"
proof -
  note c = unroll_apply_frame_cases
    [where fs = fs and sc = sc and obj = obj and loaded = loaded, OF assms]
  have a: "66 \<le> R \<longrightarrow>
      (fst (unroll_apply_frame fs npy_path target sc) = Inr () \<longleftrightarrow>
         length (vertices obj) + 66 = R)"
    unfolding c by auto
  have b: "R < 66 \<longrightarrow>
      (fst (unroll_apply_frame fs npy_path target sc) = Inr () \<longleftrightarrow> vertices obj = [])"
    unfolding c by auto
  have d: "fst (unroll_apply_frame fs npy_path target sc) = Inr () \<longrightarrow>
      snd (unroll_apply_frame fs npy_path target sc) =
        sc(target \<mapsto> obj\<lparr>vertices := map (\<lambda>j. row3 loaded (66 + j)) [0..<R - 66]\<rparr>)"
    unfolding c by simp
  have e: "fst (unroll_apply_frame fs npy_path target sc) \<noteq> Inr () \<longrightarrow>
      unroll_apply_frame fs npy_path target sc = (Inl ValueError, sc)"
    unfolding c by simp
  from a b d e show ?thesis by blast
qed

theorem unroll_drops_collider_rows_witness:
  "fst (unroll_apply_frame
     (Map.empty(''f.npy'' \<mapsto> \<lparr>shape = [68, 3], flat = replicate 198 0 @ [1, 2, 3, 4, 5, 6]\<rparr>))
     ''f.npy'' ''initial_cloth''
     (Map.empty(''initial_cloth'' \<mapsto>
        \<lparr>name = ''initial_cloth'', otype = ''MESH'', vertices = [(0, 0, 0), (0, 0, 0)]\<rparr>)))
   = Inr () \<and>
   snd (unroll_apply_frame
     (Map.empty(''f.npy'' \<mapsto> \<lparr>shape = [68, 3], flat = replicate 198 0 @ [1, 2, 3, 4, 5, 6]\<rparr>))
     ''f.npy'' ''initial_cloth''
     (Map.empty(''initial_cloth'' \<mapsto>
        \<lparr>name = ''initial_cloth'', otype = ''MESH'', vertices = [(0, 0, 0), (0, 0, 0)]\<rparr>)))
   = (Map.empty(''initial_cloth'' \<mapsto>
        \<lparr>name = ''initial_cloth'', otype = ''MESH'', vertices = [(0, 0, 0), (0, 0, 0)]\<rparr>))
      (''initial_cloth'' \<mapsto>
        \<lparr>name = ''initial_cloth'', otype = ''MESH'', vertices = [(1, 2, 3), (4, 5, 6)]\<rparr>)"
proof -
  have "[0..<68 - 66] = [0, Suc 0]"
    by (simp add: upt_rec)
  with unroll_drops_collider_rows
    [where fs = "Map.empty(''f.npy'' \<mapsto>
          \<lparr>shape = [68, 3], flat = replicate 198 0 @ [1, 2, 3, 4, 5, 6]\<rparr>)"
       and npy_path = "''f.npy''"
       and loaded = "\<lparr>shape = [68, 3], flat = replicate 198 0 @ [1, 2, 3, 4, 5, 6]\<rparr>"
       and R = 68 and target = "''initial_cloth''"
       and sc = "Map.empty(''initial_cloth'' \<mapsto>
          \<lparr>name = ''initial_cloth'', otype = ''MESH'', vertices = [(0, 0, 0), (0, 0, 0)]\<rparr>)"
       and obj = "\<lparr>name = ''initial_cloth'', otype = ''MESH'', vertices = [(0, 0, 0), (0, 0, 0)]\<rparr>"]
  show ?thesis
    by (simp add: wf_array_def row3_def nth_append)
qed

text \<open>
  Claim C9 as stated fails for a frame file shorter than the collider: of a file of ten
  rows nothing is left after the first 66, and a target mesh without vertices accepts
  the update although it does not have 66 vertices fewer than the file has rows.
\<close>

theorem unroll_short_file_accepted:
  "shape \<lparr>shape = [10, 3], flat = replicate 30 0\<rparr> = [10, 3] \<and>
   int (length (vertices \<lparr>name = ''initial_cloth'', otype = ''MESH'', vertices = []\<rparr>)) \<noteq> 10 - 66 \<and>
   fst (unroll_apply_frame
     (Map.empty(''f.npy'' \<mapsto> \<lparr>shape = [10, 3], flat = replicate 30 0\<rparr>))
     ''f.npy'' ''initial_cloth''
     (Map.empty(''initial_cloth'' \<mapsto> \<lparr>name = ''initial_cloth'', otype = ''MESH'', vertices = []\<rparr>)))
   = Inr ()"
  by (simp add: unroll_apply_frame_def np_load_def np_slice_def slice_bounds_def slice_clip_def
      update_scene_mesh_def update_mesh_vertices_def ndim_def foreach_set_co_def
      reshape_flat_def astype_float32_def)

section \<open>Rigid bodies\<close>




lemma chop3_all_rows:
  assumes "length xs = n * 3"
  shows "chop3 xs = map (\<lambda>j. (xs ! (3 * j), xs ! (3 * j + 1), xs ! (3 * j + 2))) [0..<n]"
  using chop3_rows [of 0 n xs] assms by simp







lemma quat_unit_entries:
  fixes w x y z :: real
  assumes "w * w + x * x + y * y + z * z = 1"
  shows "1 - 2 * (y * y + z * z) = w * w + x * x - y * y - z * z"
    and "1 - 2 * (x * x + z * z) = w * w - x * x + y * y - z * z"
    and "1 - 2 * (x * x + y * y) = w * w - x * x - y * y + z * z"
  using assms by simp_all

lemma quat_to_matrix_preserves_norm:
  fixes w x y z a b c :: real
  assumes "w * w + x * x + y * y + z * z = 1"
  shows "(case mat_vec (quat_to_matrix (w, x, y, z)) (a, b, c) of
            (u, v, t) \<Rightarrow> u * u + v * v + t * t) = a * a + b * b + c * c"
proof -
  have "(a * a + b * b + c * c) * ((w * w + x * x + y * y + z * z) * (w * w + x * x + y * y + z * z)) =
      ((w * w + x * x - y * y - z * z) * a + 2 * (x * y - w * z) * b + 2 * (x * z + w * y) * c) *
      ((w * w + x * x - y * y - z * z) * a + 2 * (x * y - w * z) * b + 2 * (x * z + w * y) * c) +
      (2 * (x * y + w * z) * a + (w * w - x * x + y * y - z * z) * b + 2 * (y * z - w * x) * c) *
      (2 * (x * y + w * z) * a + (w * w - x * x + y * y - z * z) * b + 2 * (y * z - w * x) * c) +
      (2 * (x * z - w * y) * a + 2 * (y * z + w * x) * b + (w * w - x * x - y * y + z * z) * c) *
      (2 * (x * z - w * y) * a + 2 * (y * z + w * x) * b + (w * w - x * x - y * y + z * z) * c)"
    by (simp add: algebra_simps)
  then have id: "a * a + b * b + c * c =
      ((w * w + x * x - y * y - z * z) * a + 2 * (x * y - w * z) * b + 2 * (x * z + w * y) * c) *
      ((w * w + x * x - y * y - z * z) * a + 2 * (x * y - w * z) * b + 2 * (x * z + w * y) * c) +
      (2 * (x * y + w * z) * a + (w * w - x * x + y * y - z * z) * b + 2 * (y * z - w * x) * c) *
      (2 * (x * y + w * z) * a + (w * w - x * x + y * y - z * z) * b + 2 * (y * z - w * x) * c) +
      (2 * (x * z - w * y) * a + 2 * (y * z + w * x) * b + (w * w - x * x - y * y + z * z) * c) *
      (2 * (x * z - w * y) * a + 2 * (y * z + w * x) * b + (w * w - x * x - y * y + z * z) * c)"
    by (simp only: assms mult_1_right)
  have R: "quat_to_matrix (w, x, y, z) =
      ((w * w + x * x - y * y - z * z, 2 * (x * y - w * z), 2 * (x * z + w * y)),
       (2 * (x * y + w * z), w * w - x * x + y * y - z * z, 2 * (y * z - w * x)),
       (2 * (x * z - w * y), 2 * (y * z + w * x), w * w - x * x - y * y + z * z))"
    by (simp only: quat_to_matrix.simps quat_unit_entries [OF assms])
  show ?thesis
    unfolding R by (simp only: mat_vec.simps prod.case id)
qed

lemma quat_about_z:
  "quat_to_matrix (cos (t / 2), 0, 0, sin (t / 2)) =
     ((cos t, - sin t, 0), (sin t, cos t, 0), (0, 0, 1))"
proof -
  have c: "cos t = 1 - 2 * (sin (t / 2) * sin (t / 2))"
    using cos_double_sin [of "t / 2"] by (simp add: power2_eq_square)
  have s: "sin t = 2 * (cos (t / 2) * sin (t / 2))"
    using sin_double [of "t / 2"] by (simp add: mult.commute)
  show ?thesis
    by (simp add: c s)
qed



section \<open>The orbit keeps height and radius\<close>

lemma rotate_xy_unit:
  fixes x y c s :: real
  assumes "s * s + c * c = 1"
  shows "(x * c - y * s) * (x * c - y * s) + (x * s + y * c) * (x * s + y * c) = x * x + y * y"
proof -
  have "(x * c - y * s) * (x * c - y * s) + (x * s + y * c) * (x * s + y * c) =
        (x * x + y * y) * (s * s + c * c)"
    by (simp add: algebra_simps)
  with assms show ?thesis by simp
qed

lemma rotate_xy_radius:
  fixes x y t :: real
  shows "(x * cos t - y * sin t) * (x * cos t - y * sin t) +
         (x * sin t + y * cos t) * (x * sin t + y * cos t) = x * x + y * y"
proof (rule rotate_xy_unit)
  show "sin t * sin t + cos t * cos t = 1"
    using sin_cos_squared_add [of t] by (simp add: power2_eq_square)
qed

lemma orbit_offset:
  "vec_sub (location (cam (orbit_camera T s t))) (orbit_center s) =
     (vx (vec_sub (initial_location s) (orbit_center s)) * cos t -
        vy (vec_sub (initial_location s) (orbit_center s)) * sin t,
      vx (vec_sub (initial_location s) (orbit_center s)) * sin t +
        vy (vec_sub (initial_location s) (orbit_center s)) * cos t,
      vz (vec_sub (initial_location s) (orbit_center s)))"
  by (cases "initial_location s"; cases "orbit_center s") (simp add: orbit_camera_def Let_def)

text \<open>
  Claim C10. Whatever the angle, the camera is placed so that its offset from the orbit
  centre has the height of the initial location's offset and the same distance from the
  centre within the XY plane; the orbit centre, the point looked at and the initial
  location are as they were.
\<close>

theorem orbit_camera_keeps_height_and_radius:
  "vz (vec_sub (location (cam (orbit_camera T s t))) (orbit_center s)) =
     vz (vec_sub (initial_location s) (orbit_center s)) \<and>
   sqrt ((vx (vec_sub (location (cam (orbit_camera T s t))) (orbit_center s)))\<^sup>2 +
         (vy (vec_sub (location (cam (orbit_camera T s t))) (orbit_center s)))\<^sup>2) =
   sqrt ((vx (vec_sub (initial_location s) (orbit_center s)))\<^sup>2 +
         (vy (vec_sub (initial_location s) (orbit_center s)))\<^sup>2) \<and>
   orbit_center (orbit_camera T s t) = orbit_center s \<and>
   look_at (orbit_camera T s t) = look_at s \<and>
   initial_location (orbit_camera T s t) = initial_location s"
proof -
  have "(vx (vec_sub (location (cam (orbit_camera T s t))) (orbit_center s)))\<^sup>2 +
        (vy (vec_sub (location (cam (orbit_camera T s t))) (orbit_center s)))\<^sup>2 =
        (vx (vec_sub (initial_location s) (orbit_center s)))\<^sup>2 +
        (vy (vec_sub (initial_location s) (orbit_center s)))\<^sup>2"
    by (simp add: orbit_offset power2_eq_square rotate_xy_radius)
  then show ?thesis
    by (simp add: orbit_offset) (simp add: orbit_camera_def Let_def)
qed

section \<open>Loops that wait for frames\<close>

lemma while_loop_Some_invariant:
  assumes "while_loop body s = Some r" and "I s"
    and step: "\<And>s s'. I s \<Longrightarrow> body s = Continue s' \<Longrightarrow> I s'"
  shows "\<exists>s'. I s' \<and> body s' = Break r"
proof -
  let ?P = "\<lambda>b s r. b = body \<longrightarrow> I s \<longrightarrow> (\<exists>s'. I s' \<and> body s' = Break r)"
  have "?P body s r"
  proof (rule while_loop.raw_induct [where P = ?P, OF _ assms(1)])
    fix w b s r
    assume IH: "\<And>b s y. w b s = Some y \<Longrightarrow> ?P b s y"
      and eq: "(case b s of Continue s' \<Rightarrow> w b s' | Break r \<Rightarrow> Some r) = Some r"
    show "?P b s r"
    proof (intro impI)
      assume b: "b = body" and i: "I s"
      show "\<exists>s'. I s' \<and> body s' = Break r"
      proof (cases "body s")
        case (Continue s1)
        with eq b have "w body s1 = Some r" by simp
        moreover from i Continue have "I s1" by (rule step)
        ultimately show ?thesis using IH by blast
      next
        case (Break r')
        with eq b i show ?thesis by auto
      qed
    qed
  qed
  with assms(2) show ?thesis by blast
qed

lemma while_loop_never_breaks:
  assumes "I s" and step: "\<And>s. I s \<Longrightarrow> \<exists>s'. body s = Continue s' \<and> I s'"
  shows "while_loop body s = None"
proof (rule ccontr)
  assume "while_loop body s \<noteq> None"
  then obtain r where r: "while_loop body s = Some r" by auto
  have "\<exists>s'. I s' \<and> body s' = Break r"
  proof (rule while_loop_Some_invariant [where I = I, OF r assms(1)])
    fix s s'
    assume "I s" and "body s = Continue s'"
    with step [of s] show "I s'" by auto
  qed
  with step show False by fastforce
qed

lemma while_loop_terminates:
  assumes "wf R" and "I s"
    and step: "\<And>s s'. I s \<Longrightarrow> body s = Continue s' \<Longrightarrow> I s' \<and> (s', s) \<in> R"
  shows "\<exists>r. while_loop body s = Some r"
  using assms(1,2)
proof (induction s rule: wf_induct_rule)
  case (less s)
  show ?case
  proof (cases "body s")
    case (Continue s')
    with less.prems have "I s' \<and> (s', s) \<in> R" by (intro step)
    with less.IH obtain r where "while_loop body s' = Some r" by blast
    with Continue show ?thesis by (subst while_loop.simps) simp
  next
    case (Break r)
    then show ?thesis by (subst while_loop.simps) simp
  qed
qed

lemma batched_loop_never_returns:
  assumes "0 < numFrames" and "waitForNewFrames \<or> b_inModelFiles st \<noteq> []"
    and "b_fileId st = 0"
  shows "while_loop (batched_body numFrames waitForNewFrames env) st = None"
proof (rule while_loop_never_breaks
    [where I = "\<lambda>s :: batched_state. b_fileId s = 0 \<and> (waitForNewFrames \<or> b_inModelFiles s \<noteq> [])"])
  show "b_fileId st = 0 \<and> (waitForNewFrames \<or> b_inModelFiles st \<noteq> [])"
    using assms by simp
next
  fix s :: batched_state
  assume "b_fileId s = 0 \<and> (waitForNewFrames \<or> b_inModelFiles s \<noteq> [])"
  with assms(1)
  show "\<exists>s'. batched_body numFrames waitForNewFrames env s = Continue s' \<and>
      b_fileId s' = 0 \<and> (waitForNewFrames \<or> b_inModelFiles s' \<noteq> [])"
    by (cases "b_inModelFiles s = []") (auto simp: batched_body_def)
qed

lemma batched_body_stuck:
  assumes "b_fileId st < numFrames" and "b_fileId st < int (length (b_inModelFiles st))"
  shows "batched_body numFrames waitForNewFrames env st = Continue st"
  using assms by (simp add: batched_body_def)

lemma twist_body_wait:
  assumes "fileId st < numFrames" and "int (length (npy_files st)) \<le> fileId st"
  shows "twist_body numFrames stride target env st =
           Continue (st\<lparr>slept := slept st + 360,
                       npy_files := npy_listing (env (Suc (now st))),
                       now := Suc (now st)\<rparr>)"
  using assms by (simp add: twist_body_def)

lemma sequence_body_wait:
  assumes "rendered_count st < numFrames"
    and "\<not> frame_exists (disk (env (seq_now st))) inFolder (frame_num st)"
  shows "sequence_body numFrames stride inFolder env st =
           Continue (st\<lparr>seq_slept := seq_slept st + 60, seq_now := Suc (seq_now st)\<rparr>)"
  using assms by (simp add: sequence_body_def)

lemma update_scene_mesh_written:
  assumes "update_scene_mesh sc ref V = (Inr (), sc')"
  shows "vertices_of sc' ref = Some (chop3 (flat V)) \<and> (\<forall>n. n \<noteq> ref \<longrightarrow> sc' n = sc n)"
  using assms
  by (auto simp: update_scene_mesh_def update_mesh_vertices_def vertices_of_def Let_def
      foreach_set_co_def reshape_flat_def astype_float32_def
      split: option.splits if_splits sum.splits)

lemma load_frame_loop_written:
  assumes "load_frame_loop fs inFolder comps k sc = (Inr (), sc')" and "distinct (map fst comps)"
  shows "(\<forall>(obj, folder) \<in> set comps.
            \<exists>V. fs (get_frame_path inFolder folder k) = Some V \<and>
                vertices_of sc' obj = Some (chop3 (flat V))) \<and>
         (\<forall>n. n \<notin> fst ` set comps \<longrightarrow> sc' n = sc n)"
  using assms
proof (induction comps arbitrary: sc)
  case Nil
  then show ?case by simp
next
  case (Cons c rest)
  obtain obj folder where c: "c = (obj, folder)" by (cases c)
  from Cons.prems(1) c obtain V sc1 where
    V: "fs (get_frame_path inFolder folder k) = Some V"
    and u: "update_scene_mesh sc obj V = (Inr (), sc1)"
    and r: "load_frame_loop fs inFolder rest k sc1 = (Inr (), sc')"
    by (auto simp: np_load_def split: option.splits sum.splits prod.splits)
  have d: "distinct (map fst rest)" and fresh: "obj \<notin> fst ` set rest"
    using Cons.prems(2) c by simp_all
  note ih = Cons.IH [OF r d]
  note w = update_scene_mesh_written [OF u]
  have "sc' obj = sc1 obj"
    using ih fresh by blast
  then have "vertices_of sc' obj = Some (chop3 (flat V))"
    using w by (simp add: vertices_of_def)
  moreover have "sc' n = sc n" if "n \<notin> fst ` set (c # rest)" for n
    using that ih w c by auto
  ultimately show ?case
    using V ih c by auto
qed

lemma distinct_mesh_components: "distinct (map fst mesh_components)"
  by (simp add: mesh_components_def)

lemma sequence_body_renders_existing:
  assumes "sequence_body numFrames stride inFolder env st = Continue st'"
    and "seq_rendered st' \<noteq> seq_rendered st \<or> seq_scene st' \<noteq> seq_scene st"
  shows "frame_exists (disk (env (seq_now st))) inFolder (frame_num st) \<and>
         seq_rendered st' = seq_rendered st @ [frame_num st] \<and>
         (\<forall>(obj, folder) \<in> set mesh_components.
            \<exists>V. disk (env (seq_now st)) (get_frame_path inFolder folder (frame_num st)) = Some V \<and>
                vertices_of (seq_scene st') obj = Some (chop3 (flat V)))"
proof -
  from assms have ex: "frame_exists (disk (env (seq_now st))) inFolder (frame_num st)"
    and l: "load_frame (disk (env (seq_now st))) inFolder (frame_num st) (seq_scene st) =
        (Inr (), seq_scene st')"
    and r: "seq_rendered st' = seq_rendered st @ [frame_num st]"
    by (auto simp: sequence_body_def split: if_splits prod.splits sum.splits)
  from l load_frame_loop_written [OF _ distinct_mesh_components] ex r show ?thesis
    unfolding load_frame_def by blast
qed

lemma twist_body_renders_listed:
  assumes "twist_body numFrames stride target env st = Continue st'"
    and "rendered st' \<noteq> rendered st \<or> scene_of st' \<noteq> scene_of st"
  shows "\<exists>p V. py_nth (npy_files st) (fileId st) = Inr p \<and> p \<in> set (npy_files st) \<and>
           disk (env (now st)) p = Some V \<and>
           vertices_of (scene_of st') target = Some (chop3 (flat V)) \<and>
           rendered st' = rendered st @ [p]"
proof -
  have nth: "p \<in> set xs" if "py_nth xs i = Inr p" for xs :: "string list" and i p
    using that by (auto simp: py_nth_def split: if_splits)
  from assms obtain p V where p: "py_nth (npy_files st) (fileId st) = Inr p"
    and V: "disk (env (now st)) p = Some V"
    and u: "update_scene_mesh (scene_of st) target V = (Inr (), scene_of st')"
    and r: "rendered st' = rendered st @ [p]"
    by (auto simp: twist_body_def twist_apply_frame_def np_load_def
        split: if_splits prod.splits sum.splits option.splits)
  from update_scene_mesh_written [OF u] nth [OF p] p V r show ?thesis
    by blast
qed

lemma twist_files_from_scan:
  assumes "\<exists>k \<le> now st. npy_files st = npy_listing (env k)"
    and "iterations n (twist_body numFrames stride target env) st = Continue st'"
  shows "\<exists>k \<le> now st'. npy_files st' = npy_listing (env k)"
  using assms
proof (induction n arbitrary: st)
  case 0
  then show ?case by simp
next
  case (Suc n)
  from Suc.prems(2) obtain s1 where b: "twist_body numFrames stride target env st = Continue s1"
    and it: "iterations n (twist_body numFrames stride target env) s1 = Continue st'"
    by (auto split: iter.splits)
  from Suc.prems(1) obtain k where k: "k \<le> now st" "npy_files st = npy_listing (env k)"
    by blast
  have "now s1 = Suc (now st) \<and>
      (npy_files s1 = npy_files st \<or> npy_files s1 = npy_listing (env (Suc (now st))))"
    using b by (auto simp: twist_body_def split: if_splits prod.splits sum.splits)
  with k have "\<exists>k \<le> now s1. npy_files s1 = npy_listing (env k)"
    by (metis le_SucI le_refl)
  from Suc.IH [OF this it] show ?case .
qed

lemma twist_waits:
  assumes "\<forall>t. int (length (npy_listing (env t))) \<le> f" and "f < numFrames"
  shows "fileId st = f \<Longrightarrow> int (length (npy_files st)) \<le> f \<Longrightarrow>
         \<exists>st'. iterations n (twist_body numFrames stride target env) st = Continue st' \<and>
               fileId st' = f \<and> int (length (npy_files st')) \<le> f \<and>
               slept st' = slept st + 360 * n \<and> scene_of st' = scene_of st \<and>
               rendered st' = rendered st \<and> now st' = now st + n"
proof (induction n arbitrary: st)
  case 0
  then show ?case by simp
next
  case (Suc n)
  let ?s1 = "st\<lparr>slept := slept st + 360, npy_files := npy_listing (env (Suc (now st))),
      now := Suc (now st)\<rparr>"
  have body: "twist_body numFrames stride target env st = Continue ?s1"
    using Suc.prems assms(2) by (intro twist_body_wait) simp_all
  have "fileId ?s1 = f" and "int (length (npy_files ?s1)) \<le> f"
    using Suc.prems assms(1) by simp_all
  from Suc.IH [OF this] body show ?case by auto
qed

lemma twist_waits_forever:
  assumes "\<forall>t. int (length (npy_listing (env t))) \<le> fileId st" and "fileId st < numFrames"
    and "int (length (npy_files st)) \<le> fileId st"
  shows "while_loop (twist_body numFrames stride target env) st = None"
proof (rule while_loop_never_breaks
    [where I = "\<lambda>s :: loop_state. fileId s = fileId st \<and> int (length (npy_files s)) \<le> fileId st"])
  show "fileId st = fileId st \<and> int (length (npy_files st)) \<le> fileId st"
    using assms(3) by simp
next
  fix s :: loop_state
  assume I: "fileId s = fileId st \<and> int (length (npy_files s)) \<le> fileId st"
  then have "twist_body numFrames stride target env s =
      Continue (s\<lparr>slept := slept s + 360, npy_files := npy_listing (env (Suc (now s))),
        now := Suc (now s)\<rparr>)"
    using assms(2) by (intro twist_body_wait) simp_all
  with I assms(1)
  show "\<exists>s'. twist_body numFrames stride target env s = Continue s' \<and>
      fileId s' = fileId st \<and> int (length (npy_files s')) \<le> fileId st"
    by simp
qed

lemma sequence_waits:
  assumes "\<forall>t. \<not> frame_exists (disk (env t)) inFolder k" and "c < numFrames"
  shows "frame_num st = k \<Longrightarrow> rendered_count st = c \<Longrightarrow>
         iterations n (sequence_body numFrames stride inFolder env) st =
           Continue (st\<lparr>seq_slept := seq_slept st + 60 * n, seq_now := seq_now st + n\<rparr>)"
proof (induction n arbitrary: st)
  case 0
  then show ?case by simp
next
  case (Suc n)
  let ?s1 = "st\<lparr>seq_slept := seq_slept st + 60, seq_now := Suc (seq_now st)\<rparr>"
  have body: "sequence_body numFrames stride inFolder env st = Continue ?s1"
    using Suc.prems assms by (intro sequence_body_wait) simp_all
  have "frame_num ?s1 = k" and "rendered_count ?s1 = c"
    using Suc.prems by simp_all
  from Suc.IH [OF this] body show ?case by simp
qed

lemma sequence_waits_forever:
  assumes "\<forall>t. \<not> frame_exists (disk (env t)) inFolder (frame_num st)"
    and "rendered_count st < numFrames"
  shows "while_loop (sequence_body numFrames stride inFolder env) st = None"
proof (rule while_loop_never_breaks
    [where I = "\<lambda>s :: sequence_state. frame_num s = frame_num st \<and>
        rendered_count s = rendered_count st"])
  show "frame_num st = frame_num st \<and> rendered_count st = rendered_count st"
    by simp
next
  fix s :: sequence_state
  assume I: "frame_num s = frame_num st \<and> rendered_count s = rendered_count st"
  then have "sequence_body numFrames stride inFolder env s =
      Continue (s\<lparr>seq_slept := seq_slept s + 60, seq_now := Suc (seq_now s)\<rparr>)"
    using assms by (intro sequence_body_wait) simp_all
  with I
  show "\<exists>s'. sequence_body numFrames stride inFolder env s = Continue s' \<and>
      frame_num s' = frame_num st \<and> rendered_count s' = rendered_count st"
    by simp
qed

lemma multi_physics_loop_terminates:
  assumes "1 \<le> stride"
    and "preview \<or> (\<forall>t \<ge> T. startFrame + numFrames \<le> int (length (npy_listing (env t))))"
  shows "\<exists>r. while_loop (multi_body startFrame numFrames stride preview scale m env) st = Some r"
proof -
  define limit where "limit = startFrame + numFrames"
  define R :: "(loop_state \<times> loop_state) set" where
    "R = inv_image (less_than <*lex*> less_than)
           (\<lambda>s. (nat (limit - fileId s),
                  if limit \<le> int (length (npy_files s)) then 0 else Suc (T - now s)))"
  have "wf R"
    unfolding R_def by (intro wf_inv_image wf_lex_prod) simp_all
  moreover have "(s', s) \<in> R"
    if "multi_body startFrame numFrames stride preview scale m env s = Continue s'"
    for s s' :: loop_state
  proof (cases "fileId s < limit")
    case False
    with that show ?thesis by (simp add: multi_body_def limit_def)
  next
    case lt: True
    show ?thesis
    proof (cases "int (length (npy_files s)) \<le> fileId s")
      case True
      with lt that have np: "\<not> preview"
        and s': "s' = s\<lparr>slept := slept s + 60, npy_files := npy_listing (env (Suc (now s))),
            body_q_files := body_q_listing (env (Suc (now s))), now := Suc (now s)\<rparr>"
        by (auto simp: multi_body_def limit_def split: if_splits)
      from np assms(2)
      have enough: "\<forall>t \<ge> T. limit \<le> int (length (npy_listing (env t)))"
        by (simp add: limit_def)
      from True lt have short: "\<not> limit \<le> int (length (npy_files s))" by simp
      show ?thesis
      proof (cases "T \<le> Suc (now s)")
        case True
        with enough have "limit \<le> int (length (npy_listing (env (Suc (now s)))))" by simp
        with short show ?thesis by (simp add: R_def s')
      next
        case False
        with short show ?thesis by (auto simp: R_def s')
      qed
    next
      case False
      with lt that have "fileId s' = fileId s + stride"
        by (auto simp: multi_body_def limit_def split: if_splits sum.splits prod.splits)
      with lt assms(1) show ?thesis by (simp add: R_def)
    qed
  qed
  ultimately show ?thesis
    by (intro while_loop_terminates [where R = R and I = "\<lambda>s. True"]) simp_all
qed

lemma render_sequence_loop_terminates:
  assumes "\<forall>t \<ge> T. \<forall>j. 0 \<le> j \<and> j < numFrames \<longrightarrow>
      frame_exists (disk (env t)) inFolder (startFrame + j * stride)"
    and "frame_num st = startFrame + rendered_count st * stride" and "0 \<le> rendered_count st"
  shows "\<exists>r. while_loop (sequence_body numFrames stride inFolder env) st = Some r"
proof -
  define R :: "(sequence_state \<times> sequence_state) set" where
    "R = inv_image (less_than <*lex*> less_than)
           (\<lambda>s. (nat (numFrames - rendered_count s), T - seq_now s))"
  define I where "I = (\<lambda>s :: sequence_state.
      frame_num s = startFrame + rendered_count s * stride \<and> 0 \<le> rendered_count s)"
  have "wf R"
    unfolding R_def by (intro wf_inv_image wf_lex_prod) simp_all
  moreover have "I st"
    using assms(2,3) by (simp add: I_def)
  moreover have "I s' \<and> (s', s) \<in> R"
    if "I s" and "sequence_body numFrames stride inFolder env s = Continue s'"
    for s s' :: sequence_state
  proof (cases "rendered_count s < numFrames")
    case False
    with that show ?thesis by (simp add: sequence_body_def)
  next
    case lt: True
    show ?thesis
    proof (cases "frame_exists (disk (env (seq_now s))) inFolder (frame_num s)")
      case False
      with lt that(2) have s': "s' = s\<lparr>seq_slept := seq_slept s + 60, seq_now := Suc (seq_now s)\<rparr>"
        by (simp add: sequence_body_def)
      have "seq_now s < T"
      proof (rule ccontr)
        assume "\<not> seq_now s < T"
        then have "T \<le> seq_now s" by simp
        with assms(1) lt that(1)
        have "frame_exists (disk (env (seq_now s))) inFolder (frame_num s)"
          by (simp add: I_def)
        with False show False by simp
      qed
      with that(1) show ?thesis by (auto simp: R_def s' I_def)
    next
      case True
      with lt that(2) have "rendered_count s' = rendered_count s + 1"
        and "frame_num s' = frame_num s + stride"
        by (auto simp: sequence_body_def split: prod.splits sum.splits)
      with lt that(1) show ?thesis
        by (simp add: R_def I_def algebra_simps)
    qed
  qed
  ultimately show ?thesis
    by (intro while_loop_terminates [where R = R and I = I]) simp_all
qed

text \<open>
  Claim C2 on \<^verbatim>\<open>BWrapper.batchedRendering\<close>. With a target of at least one frame, the
  loop never returns once the folder holds a file, and never returns either while it
  waits for one: \<^verbatim>\<open>fileId\<close> is advanced by no statement of the loop body, so the target
  is never reached. (The loops of \<^verbatim>\<open>Multi-physics/run.py\<close> and \<^verbatim>\<open>render_sequence.py\<close>
  do return under the conditions of the claim: \<open>multi_physics_loop_terminates\<close>,
  \<open>render_sequence_loop_terminates\<close>.)
\<close>

theorem batchedRendering_never_returns:
  assumes "0 < numFrames" and "waitForNewFrames \<or> npy_listing (env 0) \<noteq> []"
  shows "batchedRendering numFrames waitForNewFrames renderStride env = None"
  using batched_loop_never_returns [OF assms(1), of waitForNewFrames
      "\<lparr>b_fileId = 0, b_inModelFiles = npy_listing (env 0), b_slept = 0, b_now = 0\<rparr>" env] assms(2)
  by (simp add: batchedRendering_def)

theorem batchedRendering_never_returns_witness:
  "batchedRendering 1 False 1
     (\<lambda>t. \<lparr>npy_listing = [''A00000.ply''], body_q_listing = [], disk = Map.empty\<rparr>) = None"
  using batchedRendering_never_returns
    [of 1 False "\<lambda>t. \<lparr>npy_listing = [''A00000.ply''], body_q_listing = [], disk = Map.empty\<rparr>" 1]
  by simp

text \<open>
  Claim C5. When the next expected frame file is absent, one iteration of the loop of
  \<^verbatim>\<open>Twist_release/run.py\<close> sleeps 360 seconds and scans the folder again, and one
  iteration of the loop of \<^verbatim>\<open>render_sequence.py\<close> sleeps 60 seconds and looks again;
  the frame counter, the meshes and the list of rendered frames are as they were. An
  iteration that renders or changes a mesh has found the frame on the disk of that
  moment and has written it to the meshes: all six files in \<^verbatim>\<open>render_sequence.py\<close>, each
  in the mesh of its component; in \<^verbatim>\<open>Twist_release/run.py\<close> the file at the place of the
  counter in the list of the latest scan, which is the scan of some moment up to now.
  While the file stays away the loop goes on for any number of iterations, each with the
  same sleep, and never returns.
\<close>

theorem absent_frame_waits_and_retries:
  "(fileId st < numFrames \<and> int (length (npy_files st)) \<le> fileId st \<longrightarrow>
      twist_body numFrames stride target env st =
        Continue (st\<lparr>slept := slept st + 360,
                    npy_files := npy_listing (env (Suc (now st))),
                    now := Suc (now st)\<rparr>)) \<and>
   (rendered_count sq < numFrames \<and>
    \<not> frame_exists (disk (env (seq_now sq))) inFolder (frame_num sq) \<longrightarrow>
      sequence_body numFrames stride inFolder env sq =
        Continue (sq\<lparr>seq_slept := seq_slept sq + 60, seq_now := Suc (seq_now sq)\<rparr>)) \<and>
   (\<forall>sq'. sequence_body numFrames stride inFolder env sq = Continue sq' \<and>
          (seq_rendered sq' \<noteq> seq_rendered sq \<or> seq_scene sq' \<noteq> seq_scene sq) \<longrightarrow>
      frame_exists (disk (env (seq_now sq))) inFolder (frame_num sq) \<and>
      seq_rendered sq' = seq_rendered sq @ [frame_num sq] \<and>
      (\<forall>(obj, folder) \<in> set mesh_components.
         \<exists>V. disk (env (seq_now sq)) (get_frame_path inFolder folder (frame_num sq)) = Some V \<and>
             vertices_of (seq_scene sq') obj = Some (chop3 (flat V)))) \<and>
   (\<forall>st'. twist_body numFrames stride target env st = Continue st' \<and>
          (rendered st' \<noteq> rendered st \<or> scene_of st' \<noteq> scene_of st) \<longrightarrow>
      (\<exists>p V. py_nth (npy_files st) (fileId st) = Inr p \<and> p \<in> set (npy_files st) \<and>
         disk (env (now st)) p = Some V \<and>
         vertices_of (scene_of st') target = Some (chop3 (flat V)) \<and>
         rendered st' = rendered st @ [p])) \<and>
   ((\<exists>k \<le> now st. npy_files st = npy_listing (env k)) \<longrightarrow>
      (\<forall>n st'. iterations n (twist_body numFrames stride target env) st = Continue st' \<longrightarrow>
         (\<exists>k \<le> now st'. npy_files st' = npy_listing (env k)))) \<and>
   (rendered_count sq < numFrames \<and>
    (\<forall>t. \<not> frame_exists (disk (env t)) inFolder (frame_num sq)) \<longrightarrow>
      (\<forall>n. iterations n (sequence_body numFrames stride inFolder env) sq =
            Continue (sq\<lparr>seq_slept := seq_slept sq + 60 * n, seq_now := seq_now sq + n\<rparr>)) \<and>
      while_loop (sequence_body numFrames stride inFolder env) sq = None) \<and>
   (fileId st < numFrames \<and> int (length (npy_files st)) \<le> fileId st \<and>
    (\<forall>t. int (length (npy_listing (env t))) \<le> fileId st) \<longrightarrow>
      (\<forall>n. \<exists>st'. iterations n (twist_body numFrames stride target env) st = Continue st' \<and>
            fileId st' = fileId st \<and> slept st' = slept st + 360 * n \<and>
            scene_of st' = scene_of st \<and> rendered st' = rendered st) \<and>
      while_loop (twist_body numFrames stride target env) st = None)"
proof -
  have a: "fileId st < numFrames \<and> int (length (npy_files st)) \<le> fileId st \<longrightarrow>
      twist_body numFrames stride target env st =
        Continue (st\<lparr>slept := slept st + 360,
                    npy_files := npy_listing (env (Suc (now st))),
                    now := Suc (now st)\<rparr>)"
    by (simp add: twist_body_wait)
  have b: "rendered_count sq < numFrames \<and>
      \<not> frame_exists (disk (env (seq_now sq))) inFolder (frame_num sq) \<longrightarrow>
      sequence_body numFrames stride inFolder env sq =
        Continue (sq\<lparr>seq_slept := seq_slept sq + 60, seq_now := Suc (seq_now sq)\<rparr>)"
    by (simp add: sequence_body_wait)
  have c: "\<forall>sq'. sequence_body numFrames stride inFolder env sq = Continue sq' \<and>
          (seq_rendered sq' \<noteq> seq_rendered sq \<or> seq_scene sq' \<noteq> seq_scene sq) \<longrightarrow>
      frame_exists (disk (env (seq_now sq))) inFolder (frame_num sq) \<and>
      seq_rendered sq' = seq_rendered sq @ [frame_num sq] \<and>
      (\<forall>(obj, folder) \<in> set mesh_components.
         \<exists>V. disk (env (seq_now sq)) (get_frame_path inFolder folder (frame_num sq)) = Some V \<and>
             vertices_of (seq_scene sq') obj = Some (chop3 (flat V)))"
    using sequence_body_renders_existing [of numFrames stride inFolder env sq] by blast
  have d: "\<forall>st'. twist_body numFrames stride target env st = Continue st' \<and>
          (rendered st' \<noteq> rendered st \<or> scene_of st' \<noteq> scene_of st) \<longrightarrow>
      (\<exists>p V. py_nth (npy_files st) (fileId st) = Inr p \<and> p \<in> set (npy_files st) \<and>
         disk (env (now st)) p = Some V \<and>
         vertices_of (scene_of st') target = Some (chop3 (flat V)) \<and>
         rendered st' = rendered st @ [p])"
    using twist_body_renders_listed [of numFrames stride target env st] by blast
  have s: "(\<exists>k \<le> now st. npy_files st = npy_listing (env k)) \<longrightarrow>
      (\<forall>n st'. iterations n (twist_body numFrames stride target env) st = Continue st' \<longrightarrow>
         (\<exists>k \<le> now st'. npy_files st' = npy_listing (env k)))"
    using twist_files_from_scan [of st env _ numFrames stride target] by blast
  have e: "rendered_count sq < numFrames \<and>
      (\<forall>t. \<not> frame_exists (disk (env t)) inFolder (frame_num sq)) \<longrightarrow>
      (\<forall>n. iterations n (sequence_body numFrames stride inFolder env) sq =
            Continue (sq\<lparr>seq_slept := seq_slept sq + 60 * n, seq_now := seq_now sq + n\<rparr>)) \<and>
      while_loop (sequence_body numFrames stride inFolder env) sq = None"
    using sequence_waits [of env inFolder "frame_num sq" "rendered_count sq" numFrames sq]
      sequence_waits_forever [of env inFolder sq numFrames stride]
    by blast
  have f: "fileId st < numFrames \<and> int (length (npy_files st)) \<le> fileId st \<and>
      (\<forall>t. int (length (npy_listing (env t))) \<le> fileId st) \<longrightarrow>
      (\<forall>n. \<exists>st'. iterations n (twist_body numFrames stride target env) st = Continue st' \<and>
            fileId st' = fileId st \<and> slept st' = slept st + 360 * n \<and>
            scene_of st' = scene_of st \<and> rendered st' = rendered st) \<and>
      while_loop (twist_body numFrames stride target env) st = None"
  proof (intro impI conjI allI)
    fix n
    assume h: "fileId st < numFrames \<and> int (length (npy_files st)) \<le> fileId st \<and>
      (\<forall>t. int (length (npy_listing (env t))) \<le> fileId st)"
    then obtain st' where
      "iterations n (twist_body numFrames stride target env) st = Continue st' \<and>
       fileId st' = fileId st \<and> int (length (npy_files st')) \<le> fileId st \<and>
       slept st' = slept st + 360 * n \<and> scene_of st' = scene_of st \<and>
       rendered st' = rendered st \<and> now st' = now st + n"
      using twist_waits [of env "fileId st" numFrames st n stride target] by blast
    then show "\<exists>st'. iterations n (twist_body numFrames stride target env) st = Continue st' \<and>
        fileId st' = fileId st \<and> slept st' = slept st + 360 * n \<and>
        scene_of st' = scene_of st \<and> rendered st' = rendered st"
      by blast
  next
    assume h: "fileId st < numFrames \<and> int (length (npy_files st)) \<le> fileId st \<and>
      (\<forall>t. int (length (npy_listing (env t))) \<le> fileId st)"
    then show "while_loop (twist_body numFrames stride target env) st = None"
      by (intro twist_waits_forever) simp_all
  qed
  from a b c d s e f show ?thesis by (intro conjI)
qed

theorem absent_frame_waits_and_retries_witness:
  "twist_body 1000 1 ''initial_mesh''
     (\<lambda>t. \<lparr>npy_listing = [''/sim/step_0000.npy''], body_q_listing = [],
            disk = Map.empty(''/sim/step_0000.npy'' \<mapsto> \<lparr>shape = [1, 3], flat = [1, 2, 3]\<rparr>)\<rparr>)
     \<lparr>fileId = 1, npy_files = [''/sim/step_0000.npy''], body_q_files = [],
      scene_of = Map.empty
        (''Camera'' \<mapsto> \<lparr>name = ''Camera'', otype = ''CAMERA'', vertices = []\<rparr>,
         ''initial_mesh'' \<mapsto> \<lparr>name = ''initial_mesh'', otype = ''MESH'', vertices = [(1, 2, 3)]\<rparr>),
      rendered = [''/sim/step_0000.npy''], slept = 0, now = 1\<rparr>
   = Continue
     \<lparr>fileId = 1, npy_files = [''/sim/step_0000.npy''], body_q_files = [],
      scene_of = Map.empty
        (''Camera'' \<mapsto> \<lparr>name = ''Camera'', otype = ''CAMERA'', vertices = []\<rparr>,
         ''initial_mesh'' \<mapsto> \<lparr>name = ''initial_mesh'', otype = ''MESH'', vertices = [(1, 2, 3)]\<rparr>),
      rendered = [''/sim/step_0000.npy''], slept = 360, now = 2\<rparr> \<and>
   twist_release_run ''initial_mesh''
     (\<lambda>t. \<lparr>npy_listing = [''/sim/step_0000.npy''], body_q_listing = [],
            disk = Map.empty(''/sim/step_0000.npy'' \<mapsto> \<lparr>shape = [1, 3], flat = [1, 2, 3]\<rparr>)\<rparr>)
     (Map.empty
        (''Camera'' \<mapsto> \<lparr>name = ''Camera'', otype = ''CAMERA'', vertices = []\<rparr>,
         ''initial_mesh'' \<mapsto> \<lparr>name = ''initial_mesh'', otype = ''MESH'', vertices = [(0, 0, 0)]\<rparr>))
   = None \<and>
   sequence_body 800 1 ''/data''
     (\<lambda>t. \<lparr>npy_listing = [], body_q_listing = [],
            disk = Map.empty
              (''/data/box1/frame_000000.npy'' \<mapsto> \<lparr>shape = [1, 3], flat = [1, 2, 3]\<rparr>,
               ''/data/box2/frame_000000.npy'' \<mapsto> \<lparr>shape = [1, 3], flat = [1, 2, 3]\<rparr>,
               ''/data/box3/frame_000000.npy'' \<mapsto> \<lparr>shape = [1, 3], flat = [1, 2, 3]\<rparr>,
               ''/data/box4/frame_000000.npy'' \<mapsto> \<lparr>shape = [1, 3], flat = [1, 2, 3]\<rparr>,
               ''/data/cloth1/frame_000000.npy'' \<mapsto> \<lparr>shape = [1, 3], flat = [1, 2, 3]\<rparr>,
               ''/data/cloth2/frame_000000.npy'' \<mapsto> \<lparr>shape = [1, 3], flat = [1, 2, 3]\<rparr>,
               ''/data/box1/frame_000001.npy'' \<mapsto> \<lparr>shape = [1, 3], flat = [4, 5, 6]\<rparr>)\<rparr>)
     \<lparr>frame_num = 1, rendered_count = 1,
      seq_scene = Map.empty
        (''Camera'' \<mapsto> \<lparr>name = ''Camera'', otype = ''CAMERA'', vertices = []\<rparr>,
         ''Box1'' \<mapsto> \<lparr>name = ''Box1'', otype = ''MESH'', vertices = [(1, 2, 3)]\<rparr>),
      seq_rendered = [0], seq_slept = 0, seq_now = 1\<rparr>
   = Continue
     \<lparr>frame_num = 1, rendered_count = 1,
      seq_scene = Map.empty
        (''Camera'' \<mapsto> \<lparr>name = ''Camera'', otype = ''CAMERA'', vertices = []\<rparr>,
         ''Box1'' \<mapsto> \<lparr>name = ''Box1'', otype = ''MESH'', vertices = [(1, 2, 3)]\<rparr>),
      seq_rendered = [0], seq_slept = 60, seq_now = 2\<rparr> \<and>
   render_sequence 0 800 1 ''/data''
     (\<lambda>t. \<lparr>npy_listing = [], body_q_listing = [],
            disk = Map.empty
              (''/data/box1/frame_000000.npy'' \<mapsto> \<lparr>shape = [1, 3], flat = [1, 2, 3]\<rparr>,
               ''/data/box2/frame_000000.npy'' \<mapsto> \<lparr>shape = [1, 3], flat = [1, 2, 3]\<rparr>,
               ''/data/box3/frame_000000.npy'' \<mapsto> \<lparr>shape = [1, 3], flat = [1, 2, 3]\<rparr>,
               ''/data/box4/frame_000000.npy'' \<mapsto> \<lparr>shape = [1, 3], flat = [1, 2, 3]\<rparr>,
               ''/data/cloth1/frame_000000.npy'' \<mapsto> \<lparr>shape = [1, 3], flat = [1, 2, 3]\<rparr>,
               ''/data/cloth2/frame_000000.npy'' \<mapsto> \<lparr>shape = [1, 3], flat = [1, 2, 3]\<rparr>,
               ''/data/box1/frame_000001.npy'' \<mapsto> \<lparr>shape = [1, 3], flat = [4, 5, 6]\<rparr>)\<rparr>)
     (Map.empty
        (''Camera'' \<mapsto> \<lparr>name = ''Camera'', otype = ''CAMERA'', vertices = []\<rparr>,
         ''Box1'' \<mapsto> \<lparr>name = ''Box1'', otype = ''MESH'', vertices = [(0, 0, 0)]\<rparr>,
         ''Box2'' \<mapsto> \<lparr>name = ''Box2'', otype = ''MESH'', vertices = [(0, 0, 0)]\<rparr>,
         ''Box3'' \<mapsto> \<lparr>name = ''Box3'', otype = ''MESH'', vertices = [(0, 0, 0)]\<rparr>,
         ''Box4'' \<mapsto> \<lparr>name = ''Box4'', otype = ''MESH'', vertices = [(0, 0, 0)]\<rparr>,
         ''Cloth1'' \<mapsto> \<lparr>name = ''Cloth1'', otype = ''MESH'', vertices = [(0, 0, 0)]\<rparr>,
         ''Cloth2'' \<mapsto> \<lparr>name = ''Cloth2'', otype = ''MESH'', vertices = [(0, 0, 0)]\<rparr>))
   = None \<and>
   (\<exists>st'. twist_body 1000 1 ''initial_mesh''
       (\<lambda>t. \<lparr>npy_listing = [''/sim/step_0000.npy''], body_q_listing = [],
              disk = Map.empty(''/sim/step_0000.npy'' \<mapsto> \<lparr>shape = [1, 3], flat = [1, 2, 3]\<rparr>)\<rparr>)
       \<lparr>fileId = 0, npy_files = [''/sim/step_0000.npy''], body_q_files = [],
        scene_of = Map.empty
          (''Camera'' \<mapsto> \<lparr>name = ''Camera'', otype = ''CAMERA'', vertices = []\<rparr>,
           ''initial_mesh'' \<mapsto> \<lparr>name = ''initial_mesh'', otype = ''MESH'', vertices = [(0, 0, 0)]\<rparr>),
        rendered = [], slept = 0, now = 0\<rparr> = Continue st' \<and>
      rendered st' = [''/sim/step_0000.npy''] \<and>
      vertices_of (scene_of st') ''initial_mesh'' = Some [(1, 2, 3)]) \<and>
   (\<exists>sq'. sequence_body 800 1 ''/data''
       (\<lambda>t. \<lparr>npy_listing = [], body_q_listing = [],
              disk = Map.empty
                (''/data/box1/frame_000000.npy'' \<mapsto> \<lparr>shape = [1, 3], flat = [1, 2, 3]\<rparr>,
                 ''/data/box2/frame_000000.npy'' \<mapsto> \<lparr>shape = [1, 3], flat = [1, 2, 3]\<rparr>,
                 ''/data/box3/frame_000000.npy'' \<mapsto> \<lparr>shape = [1, 3], flat = [1, 2, 3]\<rparr>,
                 ''/data/box4/frame_000000.npy'' \<mapsto> \<lparr>shape = [1, 3], flat = [1, 2, 3]\<rparr>,
                 ''/data/cloth1/frame_000000.npy'' \<mapsto> \<lparr>shape = [1, 3], flat = [1, 2, 3]\<rparr>,
                 ''/data/cloth2/frame_000000.npy'' \<mapsto> \<lparr>shape = [1, 3], flat = [1, 2, 3]\<rparr>,
                 ''/data/box1/frame_000001.npy'' \<mapsto> \<lparr>shape = [1, 3], flat = [4, 5, 6]\<rparr>)\<rparr>)
       \<lparr>frame_num = 0, rendered_count = 0,
        seq_scene = Map.empty
          (''Camera'' \<mapsto> \<lparr>name = ''Camera'', otype = ''CAMERA'', vertices = []\<rparr>,
           ''Box1'' \<mapsto> \<lparr>name = ''Box1'', otype = ''MESH'', vertices = [(0, 0, 0)]\<rparr>,
           ''Box2'' \<mapsto> \<lparr>name = ''Box2'', otype = ''MESH'', vertices = [(0, 0, 0)]\<rparr>,
           ''Box3'' \<mapsto> \<lparr>name = ''Box3'', otype = ''MESH'', vertices = [(0, 0, 0)]\<rparr>,
           ''Box4'' \<mapsto> \<lparr>name = ''Box4'', otype = ''MESH'', vertices = [(0, 0, 0)]\<rparr>,
           ''Cloth1'' \<mapsto> \<lparr>name = ''Cloth1'', otype = ''MESH'', vertices = [(0, 0, 0)]\<rparr>,
           ''Cloth2'' \<mapsto> \<lparr>name = ''Cloth2'', otype = ''MESH'', vertices = [(0, 0, 0)]\<rparr>),
        seq_rendered = [], seq_slept = 0, seq_now = 0\<rparr> = Continue sq' \<and>
      seq_rendered sq' = [0] \<and>
      vertices_of (seq_scene sq') ''Cloth2'' = Some [(1, 2, 3)])"
proof -
  define V where "V = \<lparr>shape = [1, 3], flat = [1, 2, 3 :: real]\<rparr>"
  define tenv where "tenv = (\<lambda>t :: nat. \<lparr>npy_listing = [''/sim/step_0000.npy''],
      body_q_listing = [], disk = Map.empty(''/sim/step_0000.npy'' \<mapsto> V)\<rparr>)"
  define cam where "cam = \<lparr>name = ''Camera'', otype = ''CAMERA'', vertices = []\<rparr>"
  define tsc where "tsc = (\<lambda>vs. Map.empty
      (''Camera'' \<mapsto> cam,
       ''initial_mesh'' \<mapsto> \<lparr>name = ''initial_mesh'', otype = ''MESH'', vertices = vs\<rparr>))"
  define st0 where "st0 = \<lparr>fileId = 0, npy_files = [''/sim/step_0000.npy''],
      body_q_files = [], scene_of = tsc [(0, 0, 0)], rendered = [], slept = 0, now = 0\<rparr>"
  define st1 where "st1 = \<lparr>fileId = 1, npy_files = [''/sim/step_0000.npy''],
      body_q_files = [], scene_of = tsc [(1, 2, 3)], rendered = [''/sim/step_0000.npy''],
      slept = 0, now = 1\<rparr>"
  define disk_s where "disk_s = (Map.empty
      (''/data/box1/frame_000000.npy'' \<mapsto> V, ''/data/box2/frame_000000.npy'' \<mapsto> V,
       ''/data/box3/frame_000000.npy'' \<mapsto> V, ''/data/box4/frame_000000.npy'' \<mapsto> V,
       ''/data/cloth1/frame_000000.npy'' \<mapsto> V, ''/data/cloth2/frame_000000.npy'' \<mapsto> V,
       ''/data/box1/frame_000001.npy'' \<mapsto> \<lparr>shape = [1, 3], flat = [4, 5, 6]\<rparr>) :: filesystem)"
  define senv where "senv = (\<lambda>t :: nat. \<lparr>npy_listing = [], body_q_listing = [],
      disk = disk_s\<rparr>)"
  define ssc where "ssc = (Map.empty
      (''Camera'' \<mapsto> cam,
       ''Box1'' \<mapsto> \<lparr>name = ''Box1'', otype = ''MESH'', vertices = [(0, 0, 0)]\<rparr>,
       ''Box2'' \<mapsto> \<lparr>name = ''Box2'', otype = ''MESH'', vertices = [(0, 0, 0)]\<rparr>,
       ''Box3'' \<mapsto> \<lparr>name = ''Box3'', otype = ''MESH'', vertices = [(0, 0, 0)]\<rparr>,
       ''Box4'' \<mapsto> \<lparr>name = ''Box4'', otype = ''MESH'', vertices = [(0, 0, 0)]\<rparr>,
       ''Cloth1'' \<mapsto> \<lparr>name = ''Cloth1'', otype = ''MESH'', vertices = [(0, 0, 0)]\<rparr>,
       ''Cloth2'' \<mapsto> \<lparr>name = ''Cloth2'', otype = ''MESH'', vertices = [(0, 0, 0)]\<rparr>) :: scene)"
  define sq0 where "sq0 = \<lparr>frame_num = 0, rendered_count = 0, seq_scene = ssc,
      seq_rendered = [], seq_slept = 0, seq_now = 0\<rparr>"
  define sqw where "sqw = \<lparr>frame_num = 1, rendered_count = 1,
      seq_scene = Map.empty
        (''Camera'' \<mapsto> cam,
         ''Box1'' \<mapsto> \<lparr>name = ''Box1'', otype = ''MESH'', vertices = [(1, 2, 3)]\<rparr>),
      seq_rendered = [0], seq_slept = 0, seq_now = 1\<rparr>"
  have fmt: "format_06d 0 = ''000000''" "format_06d 1 = ''000001''"
    by code_simp+
  have t1: "twist_body 1000 1 ''initial_mesh'' tenv st0 = Continue st1"
    by (simp add: twist_body_def st0_def st1_def tenv_def py_nth_def twist_apply_frame_def
        np_load_def update_scene_mesh_def update_mesh_vertices_def ndim_def foreach_set_co_def
        reshape_flat_def astype_float32_def tsc_def V_def fun_upd_twist)
  note t = absent_frame_waits_and_retries
    [where st = st1 and numFrames = 1000 and stride = 1 and target = "''initial_mesh''"
       and env = tenv and sq = sqw and inFolder = "''/data''"]
  have twait: "twist_body 1000 1 ''initial_mesh'' tenv st1 =
      Continue (st1\<lparr>slept := slept st1 + 360, npy_files := npy_listing (tenv (Suc (now st1))),
        now := Suc (now st1)\<rparr>)"
    and tforever: "while_loop (twist_body 1000 1 ''initial_mesh'' tenv) st1 = None"
    using t by (simp_all add: st1_def tenv_def)
  have trun: "twist_release_run ''initial_mesh'' tenv (tsc [(0, 0, 0)]) = None"
  proof -
    have "while_loop (twist_body 1000 1 ''initial_mesh'' tenv) st0 =
        while_loop (twist_body 1000 1 ''initial_mesh'' tenv) st1"
      by (subst while_loop.simps) (simp add: t1)
    then show ?thesis
      using tforever
      by (simp add: twist_release_run_def tsc_def get_mesh_obj_def st0_def tenv_def)
  qed
  have absent: "\<not> frame_exists disk_s ''/data'' 1"
    by (simp add: frame_exists_def mesh_components_def path_exists_def get_frame_path_def
        join_def join_step_def fmt disk_s_def)
  note s = absent_frame_waits_and_retries
    [where st = st1 and numFrames = 800 and stride = 1 and target = "''initial_mesh''"
       and env = senv and sq = sqw and inFolder = "''/data''"]
  have swait: "sequence_body 800 1 ''/data'' senv sqw =
      Continue (sqw\<lparr>seq_slept := seq_slept sqw + 60, seq_now := Suc (seq_now sqw)\<rparr>)"
    using s absent by (simp add: sqw_def senv_def)
  obtain sq1 where s1: "sequence_body 800 1 ''/data'' senv sq0 = Continue sq1"
    and sq1: "frame_num sq1 = 1" "rendered_count sq1 = 1" and sr: "seq_rendered sq1 = [0]"
    by (simp add: sequence_body_def sq0_def senv_def frame_exists_def mesh_components_def
        path_exists_def get_frame_path_def join_def join_step_def fmt disk_s_def
        load_frame_def np_load_def update_scene_mesh_def update_mesh_vertices_def ndim_def
        foreach_set_co_def reshape_flat_def astype_float32_def ssc_def V_def)
  have sforever: "while_loop (sequence_body 800 1 ''/data'' senv) sq1 = None"
    using absent_frame_waits_and_retries
      [where st = st1 and numFrames = 800 and stride = 1 and target = "''initial_mesh''"
         and env = senv and sq = sq1 and inFolder = "''/data''"] absent sq1
    by (simp add: senv_def)
  have srun: "render_sequence 0 800 1 ''/data'' senv ssc = None"
  proof -
    have "while_loop (sequence_body 800 1 ''/data'' senv) sq0 =
        while_loop (sequence_body 800 1 ''/data'' senv) sq1"
      by (subst while_loop.simps) (simp add: s1)
    moreover have "get_mesh_objs ssc (map fst mesh_components) = Inr (map fst mesh_components)"
      by (simp add: mesh_components_def get_mesh_obj_def ssc_def)
    ultimately show ?thesis
      using sforever by (simp add: render_sequence_def sq0_def) (simp add: ssc_def)
  qed
  have trender: "\<exists>st'. twist_body 1000 1 ''initial_mesh'' tenv st0 = Continue st' \<and>
      rendered st' = [''/sim/step_0000.npy''] \<and>
      vertices_of (scene_of st') ''initial_mesh'' = Some [(1, 2, 3)]"
  proof -
    from absent_frame_waits_and_retries
      [where st = st0 and numFrames = 1000 and stride = 1 and target = "''initial_mesh''"
         and env = tenv and sq = sqw and inFolder = "''/data''"] t1
    obtain p W where "py_nth (npy_files st0) (fileId st0) = Inr p"
      and "disk (tenv (now st0)) p = Some W"
      and "vertices_of (scene_of st1) ''initial_mesh'' = Some (chop3 (flat W))"
      and "rendered st1 = rendered st0 @ [p]"
      by (auto simp: st0_def st1_def)
    then show ?thesis
      using t1 by (auto simp: st0_def tenv_def py_nth_def V_def)
  qed
  have srender: "\<exists>sq'. sequence_body 800 1 ''/data'' senv sq0 = Continue sq' \<and>
      seq_rendered sq' = [0] \<and> vertices_of (seq_scene sq') ''Cloth2'' = Some [(1, 2, 3)]"
  proof -
    from absent_frame_waits_and_retries
      [where st = st1 and numFrames = 800 and stride = 1 and target = "''initial_mesh''"
         and env = senv and sq = sq0 and inFolder = "''/data''"] s1 sr
    have "\<forall>(obj, folder) \<in> set mesh_components.
        \<exists>W. disk (senv (seq_now sq0)) (get_frame_path ''/data'' folder (frame_num sq0)) = Some W \<and>
            vertices_of (seq_scene sq1) obj = Some (chop3 (flat W))"
      by (simp add: sq0_def)
    then obtain W where
      "disk (senv (seq_now sq0)) (get_frame_path ''/data'' ''cloth2'' (frame_num sq0)) = Some W"
      and "vertices_of (seq_scene sq1) ''Cloth2'' = Some (chop3 (flat W))"
      by (auto simp: mesh_components_def)
    then have "vertices_of (seq_scene sq1) ''Cloth2'' = Some [(1, 2, 3)]"
      by (auto simp: senv_def sq0_def disk_s_def get_frame_path_def join_def join_step_def fmt
          V_def)
    with s1 sr show ?thesis by blast
  qed
  from twait trun swait srun trender srender show ?thesis
    by (simp add: st0_def st1_def tenv_def tsc_def cam_def V_def sqw_def sq0_def senv_def
        disk_s_def ssc_def)
qed

section \<open>Slow motion\<close>
















end
